theory Spec2Isabelle
  imports Main "HOL-Library.Sublist" "HOL-Library.Multiset"
begin

section \<open>Python values used by \<^verbatim>\<open>src/security/heuristics.py\<close>\<close>

text \<open>
  A Python \<^verbatim>\<open>str\<close> is a sequence of Unicode code points and \<^verbatim>\<open>len\<close> counts code
  points, so a \<^verbatim>\<open>str\<close> is a list of naturals. A Python \<^verbatim>\<open>bytes\<close> object is a list
  of 8-bit characters, which is what \<^typ>\<open>string\<close> is. The function \<open>u\<close> reads an 8-bit
  literal as text (Latin-1, of which ASCII is a part); it is how the \<^verbatim>\<open>str\<close> literals
  of the source are written down, and it is what \<^verbatim>\<open>keyword.decode()\<close> does on the
  ASCII keywords of the PDF table.
\<close>

type_synonym cp = nat
type_synonym pystr = "cp list"
type_synonym bytes = string

definition u :: "string \<Rightarrow> pystr" where
  "u s = map of_char s"

text \<open>Decimal rendering of a non-negative integer, as an f-string prints \<^verbatim>\<open>{i}\<close> or \<^verbatim>\<open>{len(value)}\<close>.\<close>

fun dec :: "nat \<Rightarrow> string" where
  "dec n = (if n < 10 then [''0123456789'' ! n]
            else dec (n div 10) @ [''0123456789'' ! (n mod 10)])"

declare dec.simps [simp del]

text \<open>
  The metadata tree. \<^verbatim>\<open>recursive_scan\<close> tells apart \<^verbatim>\<open>dict\<close>, \<^verbatim>\<open>list\<close> and \<^verbatim>\<open>str\<close>
  with \<^verbatim>\<open>isinstance\<close>; every other value falls through the \<^verbatim>\<open>if\<close>/\<^verbatim>\<open>elif\<close> chain,
  a \<^verbatim>\<open>tuple\<close> with all it holds (the extractor keeps tuples as they are). \<open>POther\<close>
  stands for any value of another type (\<^verbatim>\<open>float\<close>, \<^verbatim>\<open>bytes\<close>, ...).
  A \<^verbatim>\<open>dict\<close> is an association list in insertion order (the order of \<^verbatim>\<open>.items()\<close>),
  with \<^verbatim>\<open>str\<close> keys as the annotation \<^verbatim>\<open>Dict[str, Any]\<close> says. The datatype has no
  cyclic values.
\<close>

datatype pyval =
    PDict "(pystr \<times> pyval) list"
  | PList "pyval list"
  | PTuple "pyval list"
  | PStr pystr
  | PInt int
  | PBool bool
  | PNone
  | POther

section \<open>Regular expressions of the pattern table\<close>

text \<open>
  The patterns of \<^verbatim>\<open>SUSPICIOUS_METADATA_PATTERNS\<close> use literal characters (some escaped:
  \<^verbatim>\<open>\(\<close>, \<^verbatim>\<open>\.\<close>) and, once, \<^verbatim>\<open>.*?\<close>. \<^verbatim>\<open>re.search(pattern, value, re.IGNORECASE)\<close>
  is used for its truth value only, so the lazy star needs no preference order.
  Without \<^verbatim>\<open>re.DOTALL\<close> the dot matches every character but the newline (code point 10).
\<close>

datatype rx = Lit cp | DotStarLazy

definition ascii_lower :: "cp \<Rightarrow> cp" where
  "ascii_lower c = (if 65 \<le> c \<and> c \<le> 90 then c + 32 else c)"

text \<open>
  Which text characters an ASCII pattern character matches under \<^verbatim>\<open>re.IGNORECASE\<close> on
  \<^verbatim>\<open>str\<close>: both cases of the letter and, as in the \<^verbatim>\<open>re\<close> module, U+0130 and U+0131
  for \<^verbatim>\<open>i\<close>, U+017F for \<^verbatim>\<open>s\<close>, U+212A for \<^verbatim>\<open>k\<close>.
\<close>

definition lit_match :: "cp \<Rightarrow> cp \<Rightarrow> bool" where
  "lit_match p x =
     (ascii_lower x = ascii_lower p
      \<or> (ascii_lower p = 105 \<and> (x = 304 \<or> x = 305))
      \<or> (ascii_lower p = 115 \<and> x = 383)
      \<or> (ascii_lower p = 107 \<and> x = 8490))"

fun match_here :: "rx list \<Rightarrow> pystr \<Rightarrow> bool" where
  "match_here [] s = True"
| "match_here (Lit c # r) [] = False"
| "match_here (Lit c # r) (x # s) = (lit_match c x \<and> match_here r s)"
| "match_here (DotStarLazy # r) [] = match_here r []"
| "match_here (DotStarLazy # r) (x # s) =
     (match_here r (x # s) \<or> (x \<noteq> 10 \<and> match_here (DotStarLazy # r) s))"

fun re_search :: "rx list \<Rightarrow> pystr \<Rightarrow> bool" where
  "re_search p [] = match_here p []"
| "re_search p (x # s) = (match_here p (x # s) \<or> re_search p s)"

definition lits :: "string \<Rightarrow> rx list" where
  "lits s = map (\<lambda>c. Lit (of_char c)) s"

section \<open>Constants and patterns\<close>

definition SUSPICIOUS_METADATA_PATTERNS :: "(rx list \<times> pystr) list" where
  "SUSPICIOUS_METADATA_PATTERNS =
    [(lits ''<script'' @ [DotStarLazy] @ lits ''>'',
        u (''Posible inyecci'' @ [CHR 0xF3] @ ''n de script HTML'')),
     (lits ''javascript:'', u ''Posible esquema URI de JavaScript''),
     (lits ''eval('',
        u (''Uso de eval() (ejecuci'' @ [CHR 0xF3] @ ''n de c'' @ [CHR 0xF3] @ ''digo din'' @ [CHR 0xE1] @ ''mico)'')),
     (lits ''base64_decode'',
        u (''Decodificaci'' @ [CHR 0xF3] @ ''n Base64 (com'' @ [CHR 0xFA] @ ''n en obfuscaci'' @ [CHR 0xF3] @ ''n)'')),
     (lits ''cmd.exe'', u (''Referencia a l'' @ [CHR 0xED] @ ''nea de comandos de Windows'')),
     (lits ''powershell'', u ''Referencia a PowerShell''),
     (lits ''/bin/sh'', u ''Referencia a shell de Unix''),
     (lits ''auto_open'', u (''Macro de auto-ejecuci'' @ [CHR 0xF3] @ ''n (Office)'')),
     (lits ''Document_Open'', u (''Macro de auto-ejecuci'' @ [CHR 0xF3] @ ''n (Office)''))]"

text \<open>A \<^verbatim>\<open>dict\<close> literal iterates in the order it is written.\<close>

definition PDF_THREAT_KEYWORDS :: "(bytes \<times> pystr) list" where
  "PDF_THREAT_KEYWORDS =
    [(''/JavaScript'', u (''Contiene c'' @ [CHR 0xF3] @ ''digo JavaScript'')),
     (''/JS'', u (''Contiene c'' @ [CHR 0xF3] @ ''digo JavaScript'')),
     (''/OpenAction'', u (''Ejecuta una acci'' @ [CHR 0xF3] @ ''n al abrir el documento'')),
     (''/Launch'', u ''Intenta lanzar un programa externo''),
     (''/RichMedia'', u ''Contenido multimedia enriquecido (posible vector de ataque)'')]"

section \<open>The metadata scanner\<close>

text \<open>The two f-strings of the scanner; code point 39 is the apostrophe around the path.\<close>

definition long_value_indicator :: "pystr \<Rightarrow> nat \<Rightarrow> pystr" where
  "long_value_indicator path n =
     u ''Valor inusualmente largo en '' @ [39] @ path @ [39] @ u '' ('' @ u (dec n) @ u '' caracteres)''"

definition pattern_indicator :: "pystr \<Rightarrow> pystr \<Rightarrow> pystr" where
  "pattern_indicator desc path =
     u ''Detectado '' @ [39] @ desc @ [39] @ u '' en '' @ [39] @ path @ [39]"

text \<open>The \<^verbatim>\<open>str\<close> branch of \<^verbatim>\<open>recursive_scan\<close>; \<open>indicators\<close> is the list the closure appends to.\<close>

definition scan_str :: "pystr \<Rightarrow> pystr \<Rightarrow> pystr list \<Rightarrow> pystr list" where
  "scan_str value path indicators =
     foldl (\<lambda>inds (pattern, desc).
              if re_search pattern value then inds @ [pattern_indicator desc path] else inds)
       (if length value > 5000
        then indicators @ [long_value_indicator path (length value)]
        else indicators)
       SUSPICIOUS_METADATA_PATTERNS"

text \<open>
  \<^verbatim>\<open>recursive_scan\<close> calls itself once for each level of nesting and nothing guards
  the depth, so the interpreter's recursion limit is part of what the function does:
  a call that would exceed it raises \<^verbatim>\<open>RecursionError\<close>, which neither
  \<^verbatim>\<open>check_metadata_risk\<close> nor \<^verbatim>\<open>analyze_risk\<close> catches. The interpreter is given by
  \<^item> \<open>recursion_budget\<close>: how many nested calls of \<^verbatim>\<open>recursive_scan\<close> it still allows
    when \<^verbatim>\<open>check_metadata_risk\<close> makes the first one (the recursion limit, 1000 unless
    changed, less the frames already in use);
  \<^item> \<open>search_frames\<close>: how many more frames a call of \<^verbatim>\<open>re.search\<close> needs inside the
    call of \<^verbatim>\<open>recursive_scan\<close> that makes it.
\<close>

datatype scan_error = RecursionError

record interp =
  recursion_budget :: nat
  search_frames :: nat

text \<open>
  The first argument is \<open>search_frames\<close>, the second the number of nested calls still
  allowed. The indicators appended before an exception are lost with the closure.
\<close>

fun recursive_scan :: "nat \<Rightarrow> nat \<Rightarrow> pyval \<Rightarrow> pystr \<Rightarrow> pystr list \<Rightarrow> scan_error + pystr list"
  and scan_items :: "nat \<Rightarrow> nat \<Rightarrow> (pystr \<times> pyval) list \<Rightarrow> pystr \<Rightarrow> pystr list
                     \<Rightarrow> scan_error + pystr list"
  and scan_elems :: "nat \<Rightarrow> nat \<Rightarrow> pyval list \<Rightarrow> nat \<Rightarrow> pystr \<Rightarrow> pystr list
                     \<Rightarrow> scan_error + pystr list"
where
  "recursive_scan sf 0 value path indicators = Inl RecursionError"
| "recursive_scan sf (Suc k) (PDict kvs) path indicators = scan_items sf k kvs path indicators"
| "recursive_scan sf (Suc k) (PList vs) path indicators = scan_elems sf k vs 0 path indicators"
| "recursive_scan sf (Suc k) (PStr value) path indicators =
     (if k < sf then Inl RecursionError else Inr (scan_str value path indicators))"
| "recursive_scan sf (Suc k) (PTuple _) path indicators = Inr indicators"
| "recursive_scan sf (Suc k) (PInt _) path indicators = Inr indicators"
| "recursive_scan sf (Suc k) (PBool _) path indicators = Inr indicators"
| "recursive_scan sf (Suc k) PNone path indicators = Inr indicators"
| "recursive_scan sf (Suc k) POther path indicators = Inr indicators"
| "scan_items sf k [] path indicators = Inr indicators"
| "scan_items sf k ((key, v) # kvs) path indicators =
     (case recursive_scan sf k v (if path \<noteq> [] then path @ u ''.'' @ key else key) indicators of
        Inl e \<Rightarrow> Inl e
      | Inr indicators' \<Rightarrow> scan_items sf k kvs path indicators')"
| "scan_elems sf k [] i path indicators = Inr indicators"
| "scan_elems sf k (v # vs) i path indicators =
     (case recursive_scan sf k v (path @ u ''['' @ u (dec i) @ u '']'') indicators of
        Inl e \<Rightarrow> Inl e
      | Inr indicators' \<Rightarrow> scan_elems sf k vs (Suc i) path indicators')"

definition check_metadata_risk :: "interp \<Rightarrow> pyval \<Rightarrow> scan_error + pystr list" where
  "check_metadata_risk ip metadata =
     recursive_scan (search_frames ip) (recursion_budget ip) metadata [] []"

section \<open>The file-structure scanner\<close>

text \<open>
  What the scanners ask of the outside world. Every call that can raise returns a sum
  (\<open>Inl\<close> the exception, with the text \<^verbatim>\<open>str(e)\<close>):
  \<^item> \<open>open_rb\<close>: \<^verbatim>\<open>open(file_path, "rb")\<close> followed by \<^verbatim>\<open>f.read()\<close>;
  \<^item> \<open>is_zipfile\<close>: \<^verbatim>\<open>zipfile.is_zipfile(file_path)\<close>;
  \<^item> \<open>zip_namelist\<close>: \<^verbatim>\<open>zipfile.ZipFile(file_path, 'r')\<close> followed by \<^verbatim>\<open>zf.namelist()\<close>;
  \<^item> \<open>list_of_set\<close>: \<^verbatim>\<open>list(set(indicators))\<close>. The iteration order of a \<^verbatim>\<open>set\<close> of
    \<^verbatim>\<open>str\<close> follows the hashes of its elements, which the interpreter salts anew in
    each process, so the order is the interpreter's and not the program's.
\<close>

datatype exn = Exn pystr

record world =
  open_rb :: "pystr \<Rightarrow> exn + bytes"
  is_zipfile :: "pystr \<Rightarrow> exn + bool"
  zip_namelist :: "pystr \<Rightarrow> exn + pystr list"
  list_of_set :: "pystr list \<Rightarrow> pystr list"

text \<open>What every interpreter guarantees of \<^verbatim>\<open>list(set(xs))\<close>: each element of \<open>xs\<close> once.\<close>

definition set_semantics :: "(pystr list \<Rightarrow> pystr list) \<Rightarrow> bool" where
  "set_semantics f = (\<forall>xs. distinct (f xs) \<and> set (f xs) = set xs)"

text \<open>
  The branch for the marker \<^verbatim>\<open>jsPDF\<close>: its body is \<^verbatim>\<open>pass\<close>, so the indicator list
  leaves it as it entered.
\<close>

definition jspdf_exemption :: "bytes \<Rightarrow> pystr list \<Rightarrow> pystr list" where
  "jspdf_exemption content indicators =
     (if sublist ''jsPDF'' content then indicators else indicators)"

text \<open>The two f-strings of the PDF scan.\<close>

definition pdf_indicator :: "pystr \<Rightarrow> bytes \<Rightarrow> pystr" where
  "pdf_indicator desc keyword =
     u ''Estructura PDF sospechosa: '' @ desc @ u '' ('' @ u keyword @ u '')''"

definition pdf_combined_indicator :: "pystr \<Rightarrow> pystr" where
  "pdf_combined_indicator desc =
     u ''Estructura PDF sospechosa: '' @ desc @ u '' combinada con scripts/lanzadores''"

text \<open>The body of the loop over \<^verbatim>\<open>PDF_THREAT_KEYWORDS.items()\<close>.\<close>

fun pdf_keyword_step :: "bytes \<Rightarrow> pystr list \<Rightarrow> bytes \<times> pystr \<Rightarrow> pystr list" where
  "pdf_keyword_step content indicators (keyword, desc) =
     (if sublist keyword content then
        (if keyword = ''/OpenAction'' then
           (if sublist ''/JavaScript'' content \<or> sublist ''/JS'' content
               \<or> sublist ''/Launch'' content
            then indicators @ [pdf_combined_indicator desc]
            else indicators)
         else indicators @ [pdf_indicator desc keyword])
      else indicators)"

definition pdf_keyword_loop :: "bytes \<Rightarrow> pystr list \<Rightarrow> pystr list" where
  "pdf_keyword_loop content indicators =
     foldl (pdf_keyword_step content) indicators PDF_THREAT_KEYWORDS"

text \<open>
  \<^verbatim>\<open>scan_pdf_structure\<close>: an exception inside the \<^verbatim>\<open>try\<close> can only come from opening
  or reading the file, before anything is appended; the handler is \<^verbatim>\<open>pass\<close>, and the
  \<^verbatim>\<open>return\<close> after it runs either way.
\<close>

definition scan_pdf_structure :: "world \<Rightarrow> pystr \<Rightarrow> exn + pystr list" where
  "scan_pdf_structure w file_path =
     (case open_rb w file_path of
        Inl e \<Rightarrow> Inr (list_of_set w [])
      | Inr content \<Rightarrow>
          Inr (list_of_set w (pdf_keyword_loop content (jspdf_exemption content []))))"

text \<open>
  The scan with the exemption branch removed: \<^verbatim>\<open>scan_pdf_structure\<close> without the
  \<^verbatim>\<open>if b"jsPDF" in content\<close> statement, everything else as it is.
\<close>

definition scan_pdf_structure_no_exemption :: "world \<Rightarrow> pystr \<Rightarrow> exn + pystr list" where
  "scan_pdf_structure_no_exemption w file_path =
     (case open_rb w file_path of
        Inl e \<Rightarrow> Inr (list_of_set w [])
      | Inr content \<Rightarrow> Inr (list_of_set w (pdf_keyword_loop content [])))"

definition vba_indicator :: pystr where
  "vba_indicator = u ''Contiene Macros VBA (vbaProject.bin)''"

definition ole_indicator :: "nat \<Rightarrow> pystr" where
  "ole_indicator n = u ''Contiene '' @ u (dec n) @ u '' objeto(s) OLE incrustado(s)''"

definition scan_names :: "pystr list \<Rightarrow> pystr list" where
  "scan_names file_names =
     (let indicators =
            (if list_ex (suffix (u ''vbaProject.bin'')) file_names then [vba_indicator] else []);
          ole_files = filter (sublist (u ''embeddings/oleObject'')) file_names
      in if ole_files \<noteq> [] then indicators @ [ole_indicator (length ole_files)]
         else indicators)"

definition scan_office_structure :: "world \<Rightarrow> pystr \<Rightarrow> exn + pystr list" where
  "scan_office_structure w file_path =
     (case is_zipfile w file_path of
        Inl e \<Rightarrow> Inr []
      | Inr False \<Rightarrow> Inr []
      | Inr True \<Rightarrow>
          (case zip_namelist w file_path of
             Inl e \<Rightarrow> Inr []
           | Inr file_names \<Rightarrow> Inr (scan_names file_names)))"

definition ooxml_mime_types :: "pystr list" where
  "ooxml_mime_types =
    [u ''application/vnd.openxmlformats-officedocument.wordprocessingml.document'',
     u ''application/vnd.openxmlformats-officedocument.spreadsheetml.sheet'',
     u ''application/vnd.openxmlformats-officedocument.presentationml.presentation'']"

definition error_indicator :: "exn \<Rightarrow> pystr" where
  "error_indicator e = (case e of Exn msg \<Rightarrow> u ''Error al analizar estructura del archivo: '' @ msg)"

definition check_file_risk :: "world \<Rightarrow> pystr \<Rightarrow> pystr \<Rightarrow> pystr list" where
  "check_file_risk w file_path mime_type =
     (case (if mime_type = u ''application/pdf'' then scan_pdf_structure w file_path
            else if mime_type \<in> set ooxml_mime_types then scan_office_structure w file_path
            else Inr [])
      of Inr found \<Rightarrow> found
       | Inl e \<Rightarrow> [error_indicator e])"

text \<open>
  A world for examples: every path opens and reads as \<open>content\<close>, which is not a ZIP
  archive, and \<^verbatim>\<open>list(set(xs))\<close> lists the set as \<open>order\<close> says.
\<close>

definition single_file_world :: "bytes \<Rightarrow> (pystr list \<Rightarrow> pystr list) \<Rightarrow> world" where
  "single_file_world content order =
     \<lparr>open_rb = (\<lambda>p. Inr content), is_zipfile = (\<lambda>p. Inr False),
      zip_namelist = (\<lambda>p. Inl (Exn (u ''File is not a zip file''))), list_of_set = order\<rparr>"

text \<open>
  Every path is a ZIP archive whose entries are \<open>names\<close>.
\<close>

definition archive_world :: "pystr list \<Rightarrow> world" where
  "archive_world names =
     \<lparr>open_rb = (\<lambda>p. Inr ''PK''), is_zipfile = (\<lambda>p. Inr True),
      zip_namelist = (\<lambda>p. Inr names), list_of_set = remdups\<rparr>"

text \<open>
  A file that cannot be opened: \<^verbatim>\<open>open\<close> raises, and \<^verbatim>\<open>zipfile.is_zipfile\<close>, which
  catches \<^verbatim>\<open>OSError\<close> itself, answers \<^verbatim>\<open>False\<close>.
\<close>

definition unreadable_world :: world where
  "unreadable_world =
     \<lparr>open_rb = (\<lambda>p. Inl (Exn (u ''[Errno 13] Permission denied''))),
      is_zipfile = (\<lambda>p. Inr False),
      zip_namelist = (\<lambda>p. Inl (Exn (u ''[Errno 13] Permission denied''))),
      list_of_set = remdups\<rparr>"

text \<open>
  A corrupt archive: the end-of-central-directory record is there, so
  \<^verbatim>\<open>zipfile.is_zipfile\<close> answers \<^verbatim>\<open>True\<close>, and \<^verbatim>\<open>zipfile.ZipFile\<close> raises
  \<^verbatim>\<open>BadZipFile\<close> on the central directory.
\<close>

definition corrupt_archive_world :: world where
  "corrupt_archive_world =
     \<lparr>open_rb = (\<lambda>p. Inr ''PK''), is_zipfile = (\<lambda>p. Inr True),
      zip_namelist = (\<lambda>p. Inl (Exn (u ''Bad magic number for central directory''))),
      list_of_set = remdups\<rparr>"

section \<open>The entry point\<close>

record risk_report =
  is_suspicious :: bool
  indicators :: "pystr list"

text \<open>An exception of the metadata scan leaves \<^verbatim>\<open>analyze_risk\<close> before the file is looked at.\<close>

definition analyze_risk ::
  "interp \<Rightarrow> world \<Rightarrow> pystr \<Rightarrow> pyval \<Rightarrow> pystr \<Rightarrow> scan_error + risk_report" where
  "analyze_risk ip w file_path metadata mime_type =
     (case check_metadata_risk ip metadata of
        Inl e \<Rightarrow> Inl e
      | Inr found \<Rightarrow>
          (let findings = [] @ found;
               findings = findings @ check_file_risk w file_path mime_type
           in Inr \<lparr>is_suspicious = length findings > 0, indicators = findings\<rparr>))"

section \<open>String leaves\<close>

text \<open>
  The string leaves that the traversal reaches (through \<^verbatim>\<open>dict\<close> and \<^verbatim>\<open>list\<close> only),
  each with the path \<^verbatim>\<open>recursive_scan\<close> has built when it reaches it, in the order of
  the traversal; and what the \<^verbatim>\<open>str\<close> branch appends for one such leaf.
\<close>

fun str_leaves :: "pyval \<Rightarrow> pystr \<Rightarrow> (pystr \<times> pystr) list"
  and item_leaves :: "(pystr \<times> pyval) list \<Rightarrow> pystr \<Rightarrow> (pystr \<times> pystr) list"
  and elem_leaves :: "pyval list \<Rightarrow> nat \<Rightarrow> pystr \<Rightarrow> (pystr \<times> pystr) list"
where
  "str_leaves (PDict kvs) path = item_leaves kvs path"
| "str_leaves (PList vs) path = elem_leaves vs 0 path"
| "str_leaves (PStr value) path = [(path, value)]"
| "str_leaves (PTuple _) path = []"
| "str_leaves (PInt _) path = []"
| "str_leaves (PBool _) path = []"
| "str_leaves PNone path = []"
| "str_leaves POther path = []"
| "item_leaves [] path = []"
| "item_leaves ((k, v) # kvs) path =
     str_leaves v (if path \<noteq> [] then path @ u ''.'' @ k else k) @ item_leaves kvs path"
| "elem_leaves [] i path = []"
| "elem_leaves (v # vs) i path =
     str_leaves v (path @ u ''['' @ u (dec i) @ u '']'') @ elem_leaves vs (Suc i) path"

text \<open>
  The number of frames the scan of a value needs: one for each level of nesting down to
  the deepest value the traversal reaches, and those of \<^verbatim>\<open>re.search\<close> at a string.
\<close>

fun frames_needed :: "nat \<Rightarrow> pyval \<Rightarrow> nat"
  and frames_items :: "nat \<Rightarrow> (pystr \<times> pyval) list \<Rightarrow> nat"
  and frames_elems :: "nat \<Rightarrow> pyval list \<Rightarrow> nat"
where
  "frames_needed sf (PDict kvs) = Suc (frames_items sf kvs)"
| "frames_needed sf (PList vs) = Suc (frames_elems sf vs)"
| "frames_needed sf (PStr value) = Suc sf"
| "frames_needed sf (PTuple _) = Suc 0"
| "frames_needed sf (PInt _) = Suc 0"
| "frames_needed sf (PBool _) = Suc 0"
| "frames_needed sf PNone = Suc 0"
| "frames_needed sf POther = Suc 0"
| "frames_items sf [] = 0"
| "frames_items sf ((k, v) # kvs) = max (frames_needed sf v) (frames_items sf kvs)"
| "frames_elems sf [] = 0"
| "frames_elems sf (v # vs) = max (frames_needed sf v) (frames_elems sf vs)"

definition within_limit :: "interp \<Rightarrow> pyval \<Rightarrow> bool" where
  "within_limit ip metadata = (frames_needed (search_frames ip) metadata \<le> recursion_budget ip)"

text \<open>
  For examples: a value wrapped in \<open>n\<close> one-element lists, the path that leads to it,
  and an interpreter with the whole default recursion limit of 1000 at hand.
\<close>

fun nested :: "nat \<Rightarrow> pyval \<Rightarrow> pyval" where
  "nested 0 v = v"
| "nested (Suc n) v = PList [nested n v]"

fun nested_path :: "nat \<Rightarrow> pystr \<Rightarrow> pystr" where
  "nested_path 0 path = path"
| "nested_path (Suc n) path = nested_path n (path @ u ''[0]'')"

definition example_interp :: interp where
  "example_interp = \<lparr>recursion_budget = 1000, search_frames = 3\<rparr>"

definition str_indicators :: "pystr \<Rightarrow> pystr \<Rightarrow> pystr list" where
  "str_indicators value path =
     (if length value > 5000 then [long_value_indicator path (length value)] else []) @
     map (\<lambda>(pattern, desc). pattern_indicator desc path)
       (filter (\<lambda>(pattern, desc). re_search pattern value) SUSPICIOUS_METADATA_PATTERNS)"

definition leaf_output :: "(pystr \<times> pystr) list \<Rightarrow> pystr list" where
  "leaf_output ls = concat (map (\<lambda>(path, value). str_indicators value path) ls)"

text \<open>The description that \<^verbatim>\<open>PDF_THREAT_KEYWORDS\<close> gives for \<^verbatim>\<open>/OpenAction\<close>.\<close>

definition openaction_desc :: pystr where
  "openaction_desc = u (''Ejecuta una acci'' @ [CHR 0xF3] @ ''n al abrir el documento'')"

section \<open>Auxiliary facts\<close>

subsection \<open>Text and decimal numerals\<close>

lemma u_append: "u (a @ b) = u a @ u b" by (simp add: u_def)
lemma u_eq_iff: "(u a = u b) = (a = b)"
  by (simp add: u_def inj_map_eq_map [OF inj_of_char])

lemma digit_inj:
  "a < 10 \<Longrightarrow> b < 10 \<Longrightarrow> ''0123456789'' ! a = ''0123456789'' ! b \<Longrightarrow> a = b"
proof -
  assume a: "a < 10" and b: "b < 10" and e: "''0123456789'' ! a = ''0123456789'' ! b"
  have d: "distinct ''0123456789''" by simp
  have l: "length ''0123456789'' = 10" by simp
  from d a b e l show "a = b" by (simp add: nth_eq_iff_index_eq)
qed

lemma digit_range:
  assumes "a < 10"
  shows "(of_char (''0123456789'' ! a) :: nat) = 48 + a"
proof -
  from assms have "a \<in> {0,1,2,3,4,5,6,7,8,9}" by auto
  then show ?thesis by auto
qed

lemma dec_nonempty: "dec n \<noteq> []"
  by (subst dec.simps) simp

lemma dec_digits: "c \<in> set (dec n) \<Longrightarrow> 48 \<le> (of_char c :: nat) \<and> (of_char c :: nat) \<le> 57"
proof (induction n rule: dec.induct)
  case (1 n)
  show ?case
  proof (cases "n < 10")
    case True
    with "1.prems" have "c = ''0123456789'' ! n" by (subst (asm) dec.simps) simp
    with True show ?thesis by (simp add: digit_range)
  next
    case False
    with "1.prems" have "c \<in> set (dec (n div 10)) \<or> c = ''0123456789'' ! (n mod 10)"
      by (subst (asm) dec.simps) auto
    then show ?thesis
    proof
      assume "c \<in> set (dec (n div 10))"
      with False "1.IH" show ?thesis by simp
    next
      assume "c = ''0123456789'' ! (n mod 10)"
      then show ?thesis by (simp add: digit_range)
    qed
  qed
qed

lemma dec_inj: "dec n = dec m \<Longrightarrow> n = m"
proof (induction n arbitrary: m rule: dec.induct)
  case (1 n)
  show ?case
  proof (cases "n < 10")
    case n: True
    show ?thesis
    proof (cases "m < 10")
      case True
      with n "1.prems" show ?thesis
        by (subst (asm) dec.simps, subst (asm) (2) dec.simps) (simp add: digit_inj)
    next
      case False
      with n "1.prems" have "[''0123456789'' ! n] = dec (m div 10) @ [''0123456789'' ! (m mod 10)]"
        by (subst (asm) dec.simps, subst (asm) (2) dec.simps) simp
      then have "dec (m div 10) = []" by simp
      with dec_nonempty show ?thesis by blast
    qed
  next
    case n: False
    show ?thesis
    proof (cases "m < 10")
      case True
      with n "1.prems" have "dec (n div 10) @ [''0123456789'' ! (n mod 10)] = [''0123456789'' ! m]"
        by (subst (asm) dec.simps, subst (asm) (2) dec.simps) simp
      then have "dec (n div 10) = []" by simp
      with dec_nonempty show ?thesis by blast
    next
      case False
      with n "1.prems" have e: "dec (n div 10) = dec (m div 10)"
        and d: "''0123456789'' ! (n mod 10) = ''0123456789'' ! (m mod 10)"
        by (subst (asm) dec.simps, subst (asm) (2) dec.simps, simp)+
      from "1.IH" [OF n e] have "n div 10 = m div 10" .
      moreover from d have "n mod 10 = m mod 10" by (simp add: digit_inj)
      ultimately show ?thesis by (metis div_mult_mod_eq)
    qed
  qed
qed

lemma digits_tail_unique:
  assumes eq: "xs @ c # ds @ t = xs' @ c # ds' @ t"
    and ds: "\<forall>x\<in>set ds. P x" and ds': "\<forall>x\<in>set ds'. P x" and c: "\<not> P c"
  shows "ds = ds'"
proof -
  from eq have "(xs @ c # ds) @ t = (xs' @ c # ds') @ t" by simp
  then have "xs @ c # ds = xs' @ c # ds'" by (simp only: append_same_eq)
  then have "rev (xs @ c # ds) = rev (xs' @ c # ds')" by simp
  then have "rev ds @ c # rev xs = rev ds' @ c # rev xs'" by simp
  then have "takeWhile P (rev ds @ c # rev xs) = takeWhile P (rev ds' @ c # rev xs')" by simp
  moreover have "takeWhile P (rev ds @ c # rev xs) = rev ds"
    using ds c by (simp add: takeWhile_tail)
  moreover have "takeWhile P (rev ds' @ c # rev xs') = rev ds'"
    using ds' c by (simp add: takeWhile_tail)
  ultimately show ?thesis by simp
qed

subsection \<open>The metadata scanner as a fold over the string leaves\<close>

lemma foldl_cond_append:
  "foldl (\<lambda>acc x. if P x then acc @ [f x] else acc) acc0 xs = acc0 @ map f (filter P xs)"
  by (induction xs arbitrary: acc0) simp_all

lemma scan_str_eq: "scan_str value path inds = inds @ str_indicators value path"
proof -
  have "scan_str value path inds =
        foldl (\<lambda>acc x. if (\<lambda>(pattern, desc). re_search pattern value) x
                        then acc @ [(\<lambda>(pattern, desc). pattern_indicator desc path) x] else acc)
          (if length value > 5000 then inds @ [long_value_indicator path (length value)] else inds)
          SUSPICIOUS_METADATA_PATTERNS"
    unfolding scan_str_def by (rule arg_cong [where f = "\<lambda>g. foldl g _ _"]) (auto simp: fun_eq_iff)
  then show ?thesis
    by (simp add: foldl_cond_append str_indicators_def)
qed

lemma leaf_output_simps:
  "leaf_output [] = []"
  "leaf_output ((p, s) # ls) = str_indicators s p @ leaf_output ls"
  "leaf_output (xs @ ys) = leaf_output xs @ leaf_output ys"
  by (simp_all add: leaf_output_def)

lemma frames_needed_pos: "0 < frames_needed sf v"
  by (cases v) simp_all

lemma recursive_scan_eq:
  "recursive_scan sf k v path inds =
     (if frames_needed sf v \<le> k then Inr (inds @ leaf_output (str_leaves v path))
      else Inl RecursionError)"
  "scan_items sf k kvs path inds =
     (if frames_items sf kvs \<le> k then Inr (inds @ leaf_output (item_leaves kvs path))
      else Inl RecursionError)"
  "scan_elems sf k vs i path inds =
     (if frames_elems sf vs \<le> k then Inr (inds @ leaf_output (elem_leaves vs i path))
      else Inl RecursionError)"
  by (induction sf k v path inds and sf k kvs path inds and sf k vs i path inds
      rule: recursive_scan_scan_items_scan_elems.induct)
     (auto simp: leaf_output_simps scan_str_eq frames_needed_pos)

lemma check_metadata_risk_eq:
  "check_metadata_risk ip metadata =
     (if within_limit ip metadata then Inr (leaf_output (str_leaves metadata []))
      else Inl RecursionError)"
  by (simp add: check_metadata_risk_def within_limit_def recursive_scan_eq)

lemma frames_needed_nested: "frames_needed sf (nested n v) = n + frames_needed sf v"
  by (induction n) simp_all

lemma str_leaves_nested: "str_leaves (nested n v) path = str_leaves v (nested_path n path)"
proof (induction n arbitrary: path)
  case 0
  show ?case by simp
next
  case (Suc n)
  have "u ''['' @ u (dec 0) @ u '']'' = u ''[0]''" by (simp add: dec.simps u_def)
  then show ?case by (simp add: Suc.IH)
qed

lemma long_value_indicator_inj:
  assumes "long_value_indicator p n = long_value_indicator p' n'"
  shows "n = n'"
proof -
  let ?P = "\<lambda>x::nat. 48 \<le> x \<and> x \<le> 57"
  have u2: "u '' ('' = [32, 40]" by (simp add: u_def)
  from assms have "(p @ [39, 32]) @ 40 # u (dec n) @ u '' caracteres)''
                 = (p' @ [39, 32]) @ 40 # u (dec n') @ u '' caracteres)''"
    by (simp add: long_value_indicator_def u2)
  moreover have "\<forall>x\<in>set (u (dec n)). ?P x" "\<forall>x\<in>set (u (dec n')). ?P x"
    by (auto simp: u_def dest: dec_digits)
  moreover have "\<not> ?P 40" by simp
  ultimately have "u (dec n) = u (dec n')" by (rule digits_tail_unique)
  then show ?thesis by (simp add: u_eq_iff dec_inj)
qed

lemma long_neq_pattern: "long_value_indicator p n \<noteq> pattern_indicator d p'"
  by (simp add: long_value_indicator_def pattern_indicator_def u_def)

lemma mem_leaf_output:
  "x \<in> set (leaf_output ls) \<longleftrightarrow> (\<exists>(p, s)\<in>set ls. x \<in> set (str_indicators s p))"
  by (auto simp: leaf_output_def)

lemma mem_str_indicators:
  "x \<in> set (str_indicators s p) \<longleftrightarrow>
     (length s > 5000 \<and> x = long_value_indicator p (length s))
     \<or> (\<exists>(pat, desc)\<in>set SUSPICIOUS_METADATA_PATTERNS. re_search pat s \<and> x = pattern_indicator desc p)"
  by (auto simp: str_indicators_def)

lemma long_mem_iff:
  assumes "(p, s) \<in> set (str_leaves t [])"
  shows "long_value_indicator p (length s) \<in> set (leaf_output (str_leaves t []))
           \<longleftrightarrow> length s > 5000"
proof
  assume "long_value_indicator p (length s) \<in> set (leaf_output (str_leaves t []))"
  then obtain p' s' where "(p', s') \<in> set (str_leaves t [])"
    and m: "long_value_indicator p (length s) \<in> set (str_indicators s' p')"
    by (auto simp: mem_leaf_output)
  from m have "length s' > 5000"
    and "long_value_indicator p (length s) = long_value_indicator p' (length s')"
    by (auto simp: mem_str_indicators long_neq_pattern)
  then show "length s > 5000" by (auto dest: long_value_indicator_inj)
next
  assume "length s > 5000"
  then have "long_value_indicator p (length s) \<in> set (str_indicators s p)"
    by (simp add: mem_str_indicators)
  with assms show "long_value_indicator p (length s) \<in> set (leaf_output (str_leaves t []))"
    by (auto simp: mem_leaf_output)
qed

subsection \<open>The PDF scan\<close>

lemma distinct_count_list:
  "distinct xs \<Longrightarrow> count_list xs x = (if x \<in> set xs then 1 else 0)"
  by (induction xs) auto

lemma pdf_keyword_step_append:
  "pdf_keyword_step content inds kd = inds @ pdf_keyword_step content [] kd"
  by (cases kd) simp

lemma foldl_step_concat:
  "foldl (pdf_keyword_step content) inds kds
     = inds @ concat (map (pdf_keyword_step content []) kds)"
proof (induction kds arbitrary: inds)
  case Nil
  show ?case by simp
next
  case (Cons kd kds)
  have "foldl (pdf_keyword_step content) inds (kd # kds)
        = foldl (pdf_keyword_step content) (inds @ pdf_keyword_step content [] kd) kds"
    using pdf_keyword_step_append [of content inds kd] by simp
  then show ?case by (simp add: Cons.IH)
qed

lemma pdf_keyword_loop_eq:
  "pdf_keyword_loop content (jspdf_exemption content [])
     = concat (map (pdf_keyword_step content []) PDF_THREAT_KEYWORDS)"
  by (simp add: pdf_keyword_loop_def jspdf_exemption_def foldl_step_concat)

lemma pdf_loop_mem:
  "x \<in> set (pdf_keyword_loop content (jspdf_exemption content [])) \<longleftrightarrow>
     (\<exists>(kw, desc)\<in>set PDF_THREAT_KEYWORDS.
         kw \<noteq> ''/OpenAction'' \<and> sublist kw content \<and> x = pdf_indicator desc kw)
     \<or> (sublist ''/OpenAction'' content
         \<and> (sublist ''/JavaScript'' content \<or> sublist ''/JS'' content \<or> sublist ''/Launch'' content)
         \<and> x = pdf_combined_indicator openaction_desc)"
  unfolding pdf_keyword_loop_eq
  by (auto simp: PDF_THREAT_KEYWORDS_def openaction_desc_def split: if_splits)

lemma scan_pdf_structure_readable:
  assumes "set_semantics (list_of_set w)" and "open_rb w file_path = Inr content"
  shows "\<exists>out. scan_pdf_structure w file_path = Inr out \<and> distinct out
           \<and> set out = set (pdf_keyword_loop content (jspdf_exemption content []))"
  using assms by (simp add: scan_pdf_structure_def set_semantics_def)

lemma set_semantics_remdups: "set_semantics remdups"
  by (simp add: set_semantics_def)

lemma set_semantics_rev_remdups: "set_semantics (rev \<circ> remdups)"
  by (simp add: set_semantics_def)

subsection \<open>The Office scan\<close>

lemma ole_indicator_inj: "ole_indicator n = ole_indicator m \<Longrightarrow> n = m"
  by (simp add: ole_indicator_def u_eq_iff dec_inj)

lemma vba_neq_ole: "vba_indicator \<noteq> ole_indicator n"
proof
  assume "vba_indicator = ole_indicator n"
  then have "u ''Macros VBA (vbaProject.bin)'' = u (dec n) @ u '' objeto(s) OLE incrustado(s)''"
    by (simp add: vba_indicator_def ole_indicator_def u_def)
  then have e: "''Macros VBA (vbaProject.bin)'' = dec n @ '' objeto(s) OLE incrustado(s)''"
    by (simp add: u_append [symmetric] u_eq_iff)
  obtain c cs where d: "dec n = c # cs" using dec_nonempty [of n] by (cases "dec n") auto
  with e have "c = CHR ''M''" by simp
  moreover from d have "c \<in> set (dec n)" by simp
  ultimately have "48 \<le> (of_char (CHR ''M'') :: nat) \<and> (of_char (CHR ''M'') :: nat) \<le> 57"
    using dec_digits by blast
  then show False by simp
qed

subsection \<open>Two interpreters on the same files\<close>

lemma set_semantics_mset:
  assumes "set_semantics f" and "set_semantics g"
  shows "mset (f xs) = mset (g xs)"
proof -
  from assms have "distinct (f xs)" "distinct (g xs)" "set (f xs) = set (g xs)"
    by (simp_all add: set_semantics_def)
  then show ?thesis by (simp add: set_eq_iff_mset_eq_distinct)
qed

lemma check_file_risk_mset:
  assumes "set_semantics (list_of_set w1)" and "set_semantics (list_of_set w2)"
    and "open_rb w1 = open_rb w2" and "is_zipfile w1 = is_zipfile w2"
    and "zip_namelist w1 = zip_namelist w2"
  shows "mset (check_file_risk w1 file_path mime_type) = mset (check_file_risk w2 file_path mime_type)"
    and "mime_type \<noteq> u ''application/pdf'' \<Longrightarrow>
         check_file_risk w1 file_path mime_type = check_file_risk w2 file_path mime_type"
proof -
  have p: "\<And>xs. mset (list_of_set w1 xs) = mset (list_of_set w2 xs)"
    using assms(1,2) by (rule set_semantics_mset)
  have o: "scan_office_structure w1 file_path = scan_office_structure w2 file_path"
    by (simp only: scan_office_structure_def assms(4,5))
  show "mset (check_file_risk w1 file_path mime_type) = mset (check_file_risk w2 file_path mime_type)"
    using assms(3) o p
    by (simp add: check_file_risk_def scan_pdf_structure_def split: sum.splits)
  show "check_file_risk w1 file_path mime_type = check_file_risk w2 file_path mime_type"
    if "mime_type \<noteq> u ''application/pdf''"
    using that o by (simp add: check_file_risk_def)
qed

subsection \<open>Unfolding for concrete inputs\<close>

lemmas eval_defs = u_def lits_def lit_match_def ascii_lower_def SUSPICIOUS_METADATA_PATTERNS_def

lemmas pdf_eval = scan_pdf_structure_def single_file_world_def pdf_keyword_loop_def
  PDF_THREAT_KEYWORDS_def jspdf_exemption_def sublist_code pdf_indicator_def
  pdf_combined_indicator_def u_def

lemmas office_eval = scan_office_structure_def scan_names_def archive_world_def
  single_file_world_def vba_indicator_def ole_indicator_def sublist_code suffix_to_prefix u_def

lemmas risk_eval = analyze_risk_def check_file_risk_def check_metadata_risk_eq within_limit_def
  example_interp_def leaf_output_simps str_indicators_def Let_def

lemmas deep_eval = check_metadata_risk_eq within_limit_def example_interp_def
  frames_needed_nested str_leaves_nested

section \<open>The properties\<close>


text \<open>
  C2. The statement is that an error while reading the file during the structural scan
  becomes one indicator in the result of \<^verbatim>\<open>check_file_risk\<close>. The handler of
  \<^verbatim>\<open>check_file_risk\<close> would do that (\<open>error_indicator\<close>), and the comment in
  \<^verbatim>\<open>scan_pdf_structure\<close> says that read errors are handled there; but both scanners
  catch every exception themselves with \<^verbatim>\<open>pass\<close>, so nothing reaches that handler.
  On a PDF that cannot be opened, and on an OOXML file whose archive is corrupt, the
  result is the empty list: no exception, and no indicator either.
\<close>

theorem structural_read_error_swallowed:
  "check_file_risk unreadable_world (u ''report.pdf'') (u ''application/pdf'') = []
   \<and> check_file_risk corrupt_archive_world (u ''report.docx'')
        (u ''application/vnd.openxmlformats-officedocument.wordprocessingml.document'') = []"
  by (simp add: check_file_risk_def scan_pdf_structure_def scan_office_structure_def
      unreadable_world_def corrupt_archive_world_def ooxml_mime_types_def u_def)

text \<open>
  C3, as amended. For a PDF file that reads as \<open>content\<close>: each of the keywords
  \<^verbatim>\<open>/JS\<close>, \<^verbatim>\<open>/JavaScript\<close>, \<^verbatim>\<open>/Launch\<close>, \<^verbatim>\<open>/RichMedia\<close> found in \<open>content\<close> has its
  indicator in the result, \<^verbatim>\<open>/Launch\<close> whether or not \<^verbatim>\<open>/OpenAction\<close> is there; and a
  content with \<^verbatim>\<open>/OpenAction\<close> and none of \<^verbatim>\<open>/JavaScript\<close>, \<^verbatim>\<open>/JS\<close>, \<^verbatim>\<open>/Launch\<close>,
  \<^verbatim>\<open>/RichMedia\<close> gives no indicator at all. The last list needs \<^verbatim>\<open>/RichMedia\<close>: a
  content with \<^verbatim>\<open>/OpenAction\<close> and \<^verbatim>\<open>/RichMedia\<close> only still gives the
  \<^verbatim>\<open>/RichMedia\<close> indicator, as the second theorem below shows.
\<close>

theorem pdf_keyword_indicators:
  "set_semantics (list_of_set w) \<and> open_rb w file_path = Inr content \<longrightarrow>
     (\<exists>out. scan_pdf_structure w file_path = Inr out
        \<and> (sublist ''/JS'' content \<longrightarrow>
             u (''Estructura PDF sospechosa: Contiene c'' @ [CHR 0xF3] @ ''digo JavaScript (/JS)'') \<in> set out)
        \<and> (sublist ''/JavaScript'' content \<longrightarrow>
             u (''Estructura PDF sospechosa: Contiene c'' @ [CHR 0xF3] @ ''digo JavaScript (/JavaScript)'') \<in> set out)
        \<and> (sublist ''/Launch'' content \<longrightarrow>
             u ''Estructura PDF sospechosa: Intenta lanzar un programa externo (/Launch)'' \<in> set out)
        \<and> (sublist ''/RichMedia'' content \<longrightarrow>
             u ''Estructura PDF sospechosa: Contenido multimedia enriquecido (posible vector de ataque) (/RichMedia)'' \<in> set out)
        \<and> (sublist ''/OpenAction'' content \<and> \<not> sublist ''/JavaScript'' content
             \<and> \<not> sublist ''/JS'' content \<and> \<not> sublist ''/Launch'' content
             \<and> \<not> sublist ''/RichMedia'' content \<longrightarrow> out = []))"
proof (intro impI, elim conjE)
  assume "set_semantics (list_of_set w)" and "open_rb w file_path = Inr content"
  then obtain out where o: "scan_pdf_structure w file_path = Inr out"
    and s: "set out = set (pdf_keyword_loop content (jspdf_exemption content []))"
    using scan_pdf_structure_readable by blast
  have m: "\<And>x. x \<in> set out \<longleftrightarrow> x \<in> set (pdf_keyword_loop content (jspdf_exemption content []))"
    using s by simp
  have 1: "sublist ''/JS'' content \<longrightarrow>
             u (''Estructura PDF sospechosa: Contiene c'' @ [CHR 0xF3] @ ''digo JavaScript (/JS)'') \<in> set out"
    unfolding m pdf_loop_mem
    by (simp add: PDF_THREAT_KEYWORDS_def pdf_indicator_def u_def)
  have 2: "sublist ''/JavaScript'' content \<longrightarrow>
             u (''Estructura PDF sospechosa: Contiene c'' @ [CHR 0xF3] @ ''digo JavaScript (/JavaScript)'') \<in> set out"
    unfolding m pdf_loop_mem
    by (simp add: PDF_THREAT_KEYWORDS_def pdf_indicator_def u_def)
  have 3: "sublist ''/Launch'' content \<longrightarrow>
             u ''Estructura PDF sospechosa: Intenta lanzar un programa externo (/Launch)'' \<in> set out"
    unfolding m pdf_loop_mem
    by (simp add: PDF_THREAT_KEYWORDS_def pdf_indicator_def u_def)
  have 4: "sublist ''/RichMedia'' content \<longrightarrow>
             u ''Estructura PDF sospechosa: Contenido multimedia enriquecido (posible vector de ataque) (/RichMedia)'' \<in> set out"
    unfolding m pdf_loop_mem
    by (simp add: PDF_THREAT_KEYWORDS_def pdf_indicator_def u_def)
  have 5: "sublist ''/OpenAction'' content \<and> \<not> sublist ''/JavaScript'' content
             \<and> \<not> sublist ''/JS'' content \<and> \<not> sublist ''/Launch'' content
             \<and> \<not> sublist ''/RichMedia'' content \<longrightarrow> out = []"
  proof
    assume h: "sublist ''/OpenAction'' content \<and> \<not> sublist ''/JavaScript'' content
             \<and> \<not> sublist ''/JS'' content \<and> \<not> sublist ''/Launch'' content
             \<and> \<not> sublist ''/RichMedia'' content"
    have "set out = {}"
      unfolding s pdf_keyword_loop_eq using h by (simp add: PDF_THREAT_KEYWORDS_def)
    then show "out = []" by simp
  qed
  from o 1 2 3 4 5 show "\<exists>out. scan_pdf_structure w file_path = Inr out
        \<and> (sublist ''/JS'' content \<longrightarrow>
             u (''Estructura PDF sospechosa: Contiene c'' @ [CHR 0xF3] @ ''digo JavaScript (/JS)'') \<in> set out)
        \<and> (sublist ''/JavaScript'' content \<longrightarrow>
             u (''Estructura PDF sospechosa: Contiene c'' @ [CHR 0xF3] @ ''digo JavaScript (/JavaScript)'') \<in> set out)
        \<and> (sublist ''/Launch'' content \<longrightarrow>
             u ''Estructura PDF sospechosa: Intenta lanzar un programa externo (/Launch)'' \<in> set out)
        \<and> (sublist ''/RichMedia'' content \<longrightarrow>
             u ''Estructura PDF sospechosa: Contenido multimedia enriquecido (posible vector de ataque) (/RichMedia)'' \<in> set out)
        \<and> (sublist ''/OpenAction'' content \<and> \<not> sublist ''/JavaScript'' content
             \<and> \<not> sublist ''/JS'' content \<and> \<not> sublist ''/Launch'' content
             \<and> \<not> sublist ''/RichMedia'' content \<longrightarrow> out = [])"
    by blast
qed

theorem pdf_keyword_indicators_witness:
  "set_semantics (list_of_set (single_file_world ''%PDF /JS /JavaScript /Launch /RichMedia'' remdups))
   \<and> open_rb (single_file_world ''%PDF /JS /JavaScript /Launch /RichMedia'' remdups) (u ''a.pdf'')
       = Inr ''%PDF /JS /JavaScript /Launch /RichMedia''
   \<and> sublist ''/JS'' ''%PDF /JS /JavaScript /Launch /RichMedia''
   \<and> sublist ''/JavaScript'' ''%PDF /JS /JavaScript /Launch /RichMedia''
   \<and> sublist ''/Launch'' ''%PDF /JS /JavaScript /Launch /RichMedia''
   \<and> sublist ''/RichMedia'' ''%PDF /JS /JavaScript /Launch /RichMedia''
   \<and> scan_pdf_structure (single_file_world ''%PDF /JS /JavaScript /Launch /RichMedia'' remdups) (u ''a.pdf'')
       = Inr [u (''Estructura PDF sospechosa: Contiene c'' @ [CHR 0xF3] @ ''digo JavaScript (/JavaScript)''),
              u (''Estructura PDF sospechosa: Contiene c'' @ [CHR 0xF3] @ ''digo JavaScript (/JS)''),
              u ''Estructura PDF sospechosa: Intenta lanzar un programa externo (/Launch)'',
              u ''Estructura PDF sospechosa: Contenido multimedia enriquecido (posible vector de ataque) (/RichMedia)'']
   \<and> set_semantics (list_of_set (single_file_world ''%PDF /OpenAction [3 0 R /Fit]'' remdups))
   \<and> open_rb (single_file_world ''%PDF /OpenAction [3 0 R /Fit]'' remdups) (u ''a.pdf'')
       = Inr ''%PDF /OpenAction [3 0 R /Fit]''
   \<and> sublist ''/OpenAction'' ''%PDF /OpenAction [3 0 R /Fit]''
   \<and> \<not> sublist ''/JavaScript'' ''%PDF /OpenAction [3 0 R /Fit]''
   \<and> \<not> sublist ''/JS'' ''%PDF /OpenAction [3 0 R /Fit]''
   \<and> \<not> sublist ''/Launch'' ''%PDF /OpenAction [3 0 R /Fit]''
   \<and> \<not> sublist ''/RichMedia'' ''%PDF /OpenAction [3 0 R /Fit]''
   \<and> scan_pdf_structure (single_file_world ''%PDF /OpenAction [3 0 R /Fit]'' remdups) (u ''a.pdf'') = Inr []"
  using pdf_keyword_indicators [of "single_file_world ''%PDF /JS /JavaScript /Launch /RichMedia'' remdups"
      "u ''a.pdf''" "''%PDF /JS /JavaScript /Launch /RichMedia''"]
    pdf_keyword_indicators [of "single_file_world ''%PDF /OpenAction [3 0 R /Fit]'' remdups"
      "u ''a.pdf''" "''%PDF /OpenAction [3 0 R /Fit]''"]
  by (simp add: pdf_eval set_semantics_def)

theorem openaction_alone_counterexample:
  "sublist ''/OpenAction'' ''%PDF /OpenAction /RichMedia''
   \<and> \<not> sublist ''/JavaScript'' ''%PDF /OpenAction /RichMedia''
   \<and> \<not> sublist ''/JS'' ''%PDF /OpenAction /RichMedia''
   \<and> \<not> sublist ''/Launch'' ''%PDF /OpenAction /RichMedia''
   \<and> scan_pdf_structure (single_file_world ''%PDF /OpenAction /RichMedia'' remdups) (u ''a.pdf'')
       = Inr [u ''Estructura PDF sospechosa: Contenido multimedia enriquecido (posible vector de ataque) (/RichMedia)'']
   \<and> scan_pdf_structure (single_file_world ''%PDF /OpenAction /RichMedia'' remdups) (u ''a.pdf'')
       \<noteq> Inr []"
  by (simp add: pdf_eval)

text \<open>
  C4. For a PDF file whose content has both \<^verbatim>\<open>/OpenAction\<close> and \<^verbatim>\<open>/JavaScript\<close>, the
  result holds the combined indicator for \<^verbatim>\<open>/OpenAction\<close> exactly once, and does not
  hold the per-keyword form for \<^verbatim>\<open>/OpenAction\<close>.
\<close>

theorem openaction_reported_once_combined:
  "set_semantics (list_of_set w) \<and> open_rb w file_path = Inr content
   \<and> sublist ''/OpenAction'' content \<and> sublist ''/JavaScript'' content \<longrightarrow>
     (\<exists>out. scan_pdf_structure w file_path = Inr out
        \<and> count_list out
             (u (''Estructura PDF sospechosa: Ejecuta una acci'' @ [CHR 0xF3] @
                 ''n al abrir el documento combinada con scripts/lanzadores'')) = 1
        \<and> u (''Estructura PDF sospechosa: Ejecuta una acci'' @ [CHR 0xF3] @
              ''n al abrir el documento (/OpenAction)'') \<notin> set out)"
proof (intro impI, elim conjE)
  assume "set_semantics (list_of_set w)" and "open_rb w file_path = Inr content"
    and oa: "sublist ''/OpenAction'' content" and js: "sublist ''/JavaScript'' content"
  then obtain out where o: "scan_pdf_structure w file_path = Inr out" and d: "distinct out"
    and s: "set out = set (pdf_keyword_loop content (jspdf_exemption content []))"
    using scan_pdf_structure_readable by blast
  have m: "\<And>x. x \<in> set out \<longleftrightarrow> x \<in> set (pdf_keyword_loop content (jspdf_exemption content []))"
    using s by simp
  have "u (''Estructura PDF sospechosa: Ejecuta una acci'' @ [CHR 0xF3] @
            ''n al abrir el documento combinada con scripts/lanzadores'') \<in> set out"
    unfolding m pdf_loop_mem using oa js
    by (simp add: pdf_combined_indicator_def openaction_desc_def u_def)
  with d have 1: "count_list out
             (u (''Estructura PDF sospechosa: Ejecuta una acci'' @ [CHR 0xF3] @
                 ''n al abrir el documento combinada con scripts/lanzadores'')) = 1"
    by (simp add: distinct_count_list)
  have 2: "u (''Estructura PDF sospechosa: Ejecuta una acci'' @ [CHR 0xF3] @
              ''n al abrir el documento (/OpenAction)'') \<notin> set out"
    unfolding m pdf_loop_mem
    by (simp add: PDF_THREAT_KEYWORDS_def pdf_indicator_def pdf_combined_indicator_def
        openaction_desc_def u_def)
  from o 1 2 show "\<exists>out. scan_pdf_structure w file_path = Inr out
        \<and> count_list out
             (u (''Estructura PDF sospechosa: Ejecuta una acci'' @ [CHR 0xF3] @
                 ''n al abrir el documento combinada con scripts/lanzadores'')) = 1
        \<and> u (''Estructura PDF sospechosa: Ejecuta una acci'' @ [CHR 0xF3] @
              ''n al abrir el documento (/OpenAction)'') \<notin> set out"
    by blast
qed

theorem openaction_reported_once_combined_witness:
  "set_semantics (list_of_set (single_file_world ''%PDF /OpenAction 5 0 R /S /JavaScript'' remdups))
   \<and> open_rb (single_file_world ''%PDF /OpenAction 5 0 R /S /JavaScript'' remdups) (u ''a.pdf'')
       = Inr ''%PDF /OpenAction 5 0 R /S /JavaScript''
   \<and> sublist ''/OpenAction'' ''%PDF /OpenAction 5 0 R /S /JavaScript''
   \<and> sublist ''/JavaScript'' ''%PDF /OpenAction 5 0 R /S /JavaScript''
   \<and> scan_pdf_structure (single_file_world ''%PDF /OpenAction 5 0 R /S /JavaScript'' remdups) (u ''a.pdf'')
       = Inr [u (''Estructura PDF sospechosa: Contiene c'' @ [CHR 0xF3] @ ''digo JavaScript (/JavaScript)''),
              u (''Estructura PDF sospechosa: Ejecuta una acci'' @ [CHR 0xF3] @
                 ''n al abrir el documento combinada con scripts/lanzadores'')]"
  using openaction_reported_once_combined
    [of "single_file_world ''%PDF /OpenAction 5 0 R /S /JavaScript'' remdups" "u ''a.pdf''"
        "''%PDF /OpenAction 5 0 R /S /JavaScript''"]
  by (simp add: pdf_eval set_semantics_def)

text \<open>
  C5. The PDF scan returns what the same scan without the \<^verbatim>\<open>jsPDF\<close> branch returns, on
  every file; and on a content that holds the marker \<^verbatim>\<open>jsPDF\<close>, each of
  \<^verbatim>\<open>/JavaScript\<close>, \<^verbatim>\<open>/JS\<close>, \<^verbatim>\<open>/Launch\<close>, \<^verbatim>\<open>/RichMedia\<close> found in it still has its
  indicator in the result.
\<close>

theorem jspdf_exemption_suppresses_nothing:
  "scan_pdf_structure w file_path = scan_pdf_structure_no_exemption w file_path
   \<and> (set_semantics (list_of_set w) \<and> open_rb w file_path = Inr content
        \<and> sublist ''jsPDF'' content \<longrightarrow>
        (\<exists>out. scan_pdf_structure w file_path = Inr out
          \<and> (sublist ''/JavaScript'' content \<longrightarrow>
               u (''Estructura PDF sospechosa: Contiene c'' @ [CHR 0xF3] @ ''digo JavaScript (/JavaScript)'') \<in> set out)
          \<and> (sublist ''/JS'' content \<longrightarrow>
               u (''Estructura PDF sospechosa: Contiene c'' @ [CHR 0xF3] @ ''digo JavaScript (/JS)'') \<in> set out)
          \<and> (sublist ''/Launch'' content \<longrightarrow>
               u ''Estructura PDF sospechosa: Intenta lanzar un programa externo (/Launch)'' \<in> set out)
          \<and> (sublist ''/RichMedia'' content \<longrightarrow>
               u ''Estructura PDF sospechosa: Contenido multimedia enriquecido (posible vector de ataque) (/RichMedia)'' \<in> set out)))"
proof -
  have e: "scan_pdf_structure w file_path = scan_pdf_structure_no_exemption w file_path"
    by (simp add: scan_pdf_structure_def scan_pdf_structure_no_exemption_def jspdf_exemption_def
        split: sum.splits)
  have "\<exists>out. scan_pdf_structure w file_path = Inr out
          \<and> (sublist ''/JavaScript'' content \<longrightarrow>
               u (''Estructura PDF sospechosa: Contiene c'' @ [CHR 0xF3] @ ''digo JavaScript (/JavaScript)'') \<in> set out)
          \<and> (sublist ''/JS'' content \<longrightarrow>
               u (''Estructura PDF sospechosa: Contiene c'' @ [CHR 0xF3] @ ''digo JavaScript (/JS)'') \<in> set out)
          \<and> (sublist ''/Launch'' content \<longrightarrow>
               u ''Estructura PDF sospechosa: Intenta lanzar un programa externo (/Launch)'' \<in> set out)
          \<and> (sublist ''/RichMedia'' content \<longrightarrow>
               u ''Estructura PDF sospechosa: Contenido multimedia enriquecido (posible vector de ataque) (/RichMedia)'' \<in> set out)"
    if "set_semantics (list_of_set w)" and "open_rb w file_path = Inr content"
  proof -
    from that obtain out where o: "scan_pdf_structure w file_path = Inr out"
      and s: "set out = set (pdf_keyword_loop content (jspdf_exemption content []))"
      using scan_pdf_structure_readable by blast
    have m: "\<And>x. x \<in> set out \<longleftrightarrow> x \<in> set (pdf_keyword_loop content (jspdf_exemption content []))"
      using s by simp
    have 1: "sublist ''/JavaScript'' content \<longrightarrow>
               u (''Estructura PDF sospechosa: Contiene c'' @ [CHR 0xF3] @ ''digo JavaScript (/JavaScript)'') \<in> set out"
      unfolding m pdf_loop_mem by (simp add: PDF_THREAT_KEYWORDS_def pdf_indicator_def u_def)
    have 2: "sublist ''/JS'' content \<longrightarrow>
               u (''Estructura PDF sospechosa: Contiene c'' @ [CHR 0xF3] @ ''digo JavaScript (/JS)'') \<in> set out"
      unfolding m pdf_loop_mem by (simp add: PDF_THREAT_KEYWORDS_def pdf_indicator_def u_def)
    have 3: "sublist ''/Launch'' content \<longrightarrow>
               u ''Estructura PDF sospechosa: Intenta lanzar un programa externo (/Launch)'' \<in> set out"
      unfolding m pdf_loop_mem by (simp add: PDF_THREAT_KEYWORDS_def pdf_indicator_def u_def)
    have 4: "sublist ''/RichMedia'' content \<longrightarrow>
               u ''Estructura PDF sospechosa: Contenido multimedia enriquecido (posible vector de ataque) (/RichMedia)'' \<in> set out"
      unfolding m pdf_loop_mem by (simp add: PDF_THREAT_KEYWORDS_def pdf_indicator_def u_def)
    from o 1 2 3 4 show ?thesis by blast
  qed
  with e show ?thesis by blast
qed

theorem jspdf_exemption_suppresses_nothing_witness:
  "set_semantics (list_of_set (single_file_world ''%PDF jsPDF /JS /JavaScript /Launch /RichMedia'' remdups))
   \<and> open_rb (single_file_world ''%PDF jsPDF /JS /JavaScript /Launch /RichMedia'' remdups) (u ''a.pdf'')
       = Inr ''%PDF jsPDF /JS /JavaScript /Launch /RichMedia''
   \<and> sublist ''jsPDF'' ''%PDF jsPDF /JS /JavaScript /Launch /RichMedia''
   \<and> sublist ''/JavaScript'' ''%PDF jsPDF /JS /JavaScript /Launch /RichMedia''
   \<and> sublist ''/JS'' ''%PDF jsPDF /JS /JavaScript /Launch /RichMedia''
   \<and> sublist ''/Launch'' ''%PDF jsPDF /JS /JavaScript /Launch /RichMedia''
   \<and> sublist ''/RichMedia'' ''%PDF jsPDF /JS /JavaScript /Launch /RichMedia''
   \<and> scan_pdf_structure (single_file_world ''%PDF jsPDF /JS /JavaScript /Launch /RichMedia'' remdups) (u ''a.pdf'')
       = Inr [u (''Estructura PDF sospechosa: Contiene c'' @ [CHR 0xF3] @ ''digo JavaScript (/JavaScript)''),
              u (''Estructura PDF sospechosa: Contiene c'' @ [CHR 0xF3] @ ''digo JavaScript (/JS)''),
              u ''Estructura PDF sospechosa: Intenta lanzar un programa externo (/Launch)'',
              u ''Estructura PDF sospechosa: Contenido multimedia enriquecido (posible vector de ataque) (/RichMedia)'']
   \<and> scan_pdf_structure_no_exemption
        (single_file_world ''%PDF jsPDF /JS /JavaScript /Launch /RichMedia'' remdups) (u ''a.pdf'')
       = scan_pdf_structure
        (single_file_world ''%PDF jsPDF /JS /JavaScript /Launch /RichMedia'' remdups) (u ''a.pdf'')"
  using jspdf_exemption_suppresses_nothing
    [of "single_file_world ''%PDF jsPDF /JS /JavaScript /Launch /RichMedia'' remdups" "u ''a.pdf''"
        "''%PDF jsPDF /JS /JavaScript /Launch /RichMedia''"]
  by (simp add: pdf_eval set_semantics_def)

text \<open>
  C6, as amended. For a tree within the recursion limit: if no string leaf that the
  traversal reaches is longer than 5000 characters and none matches a pattern of the
  table, the metadata scanner returns the empty list; in general its result is made of
  the indicators of those string leaves alone, in traversal order. A number, a boolean
  or \<^verbatim>\<open>None\<close> leaves the indicator list as it is, whatever the path and whatever has
  been found so far. The scanner raises \<^verbatim>\<open>RecursionError\<close> exactly on the trees beyond
  the limit: the theorem after the next has a tree without any string, nested 2000
  deep, on which the scan raises.
\<close>

theorem clean_tree_no_indicators:
  "(within_limit ip t
      \<and> (\<forall>(p, s)\<in>set (str_leaves t []).
        length s \<le> 5000 \<and> (\<forall>(pat, desc)\<in>set SUSPICIOUS_METADATA_PATTERNS. \<not> re_search pat s))
      \<longrightarrow> check_metadata_risk ip t = Inr [])
   \<and> (within_limit ip t \<longrightarrow>
        check_metadata_risk ip t
          = Inr (concat (map (\<lambda>(path, value). str_indicators value path) (str_leaves t []))))
   \<and> (check_metadata_risk ip t = Inl RecursionError) = (\<not> within_limit ip t)
   \<and> recursive_scan sf (Suc k) (PInt n) path inds = Inr inds
   \<and> recursive_scan sf (Suc k) (PBool b) path inds = Inr inds
   \<and> recursive_scan sf (Suc k) PNone path inds = Inr inds"
proof -
  have "leaf_output (str_leaves t []) = []"
    if h: "\<forall>(p, s)\<in>set (str_leaves t []).
        length s \<le> 5000 \<and> (\<forall>(pat, desc)\<in>set SUSPICIOUS_METADATA_PATTERNS. \<not> re_search pat s)"
  proof -
    have "x \<notin> set (leaf_output (str_leaves t []))" for x
    proof
      assume "x \<in> set (leaf_output (str_leaves t []))"
      then obtain p s where l: "(p, s) \<in> set (str_leaves t [])"
        and m: "x \<in> set (str_indicators s p)"
        unfolding mem_leaf_output by blast
      from h l have n: "length s \<le> 5000"
        and r: "\<forall>(pat, desc)\<in>set SUSPICIOUS_METADATA_PATTERNS. \<not> re_search pat s"
        by blast+
      from m n obtain pat desc where "(pat, desc) \<in> set SUSPICIOUS_METADATA_PATTERNS"
        and "re_search pat s"
        unfolding mem_str_indicators by auto
      with r show False by blast
    qed
    then show ?thesis by (cases "leaf_output (str_leaves t [])") auto
  qed
  then have 1: "within_limit ip t
      \<and> (\<forall>(p, s)\<in>set (str_leaves t []).
        length s \<le> 5000 \<and> (\<forall>(pat, desc)\<in>set SUSPICIOUS_METADATA_PATTERNS. \<not> re_search pat s))
      \<longrightarrow> check_metadata_risk ip t = Inr []"
    by (simp add: check_metadata_risk_eq)
  have 2: "within_limit ip t \<longrightarrow>
        check_metadata_risk ip t
          = Inr (concat (map (\<lambda>(path, value). str_indicators value path) (str_leaves t [])))"
    by (simp add: check_metadata_risk_eq leaf_output_def)
  have 3: "(check_metadata_risk ip t = Inl RecursionError) = (\<not> within_limit ip t)"
    by (simp add: check_metadata_risk_eq)
  from 1 2 3 show ?thesis by simp
qed

theorem clean_tree_no_indicators_witness:
  "within_limit example_interp
        (PDict [(u ''title'', PStr (u ''Report'')), (u ''pages'', PInt 3),
                (u ''tags'', PList [PNone, PBool True, PStr (u ''x'')])])
   \<and> str_leaves
        (PDict [(u ''title'', PStr (u ''Report'')), (u ''pages'', PInt 3),
                (u ''tags'', PList [PNone, PBool True, PStr (u ''x'')])]) []
     = [(u ''title'', u ''Report''), (u ''tags[2]'', u ''x'')]
   \<and> length (u ''Report'') \<le> 5000 \<and> length (u ''x'') \<le> 5000
   \<and> list_all (\<lambda>(pat, desc). \<not> re_search pat (u ''Report'')) SUSPICIOUS_METADATA_PATTERNS
   \<and> list_all (\<lambda>(pat, desc). \<not> re_search pat (u ''x'')) SUSPICIOUS_METADATA_PATTERNS
   \<and> check_metadata_risk example_interp
        (PDict [(u ''title'', PStr (u ''Report'')), (u ''pages'', PInt 3),
                (u ''tags'', PList [PNone, PBool True, PStr (u ''x'')])]) = Inr []"
proof -
  have w: "within_limit example_interp
        (PDict [(u ''title'', PStr (u ''Report'')), (u ''pages'', PInt 3),
                (u ''tags'', PList [PNone, PBool True, PStr (u ''x'')])])"
    by (simp add: within_limit_def example_interp_def)
  have l: "str_leaves
        (PDict [(u ''title'', PStr (u ''Report'')), (u ''pages'', PInt 3),
                (u ''tags'', PList [PNone, PBool True, PStr (u ''x'')])]) []
     = [(u ''title'', u ''Report''), (u ''tags[2]'', u ''x'')]"
    by (simp add: u_def dec.simps)
  have n: "length (u ''Report'') \<le> 5000" "length (u ''x'') \<le> 5000"
    by (simp_all add: u_def)
  have r: "list_all (\<lambda>(pat, desc). \<not> re_search pat (u ''Report'')) SUSPICIOUS_METADATA_PATTERNS"
    "list_all (\<lambda>(pat, desc). \<not> re_search pat (u ''x'')) SUSPICIOUS_METADATA_PATTERNS"
    by (simp_all add: eval_defs)
  have h: "\<forall>(p, s)\<in>set (str_leaves
        (PDict [(u ''title'', PStr (u ''Report'')), (u ''pages'', PInt 3),
                (u ''tags'', PList [PNone, PBool True, PStr (u ''x'')])]) []).
        length s \<le> 5000 \<and> (\<forall>(pat, desc)\<in>set SUSPICIOUS_METADATA_PATTERNS. \<not> re_search pat s)"
    unfolding l using n r by (simp add: list_all_iff)
  with w l n r clean_tree_no_indicators [of example_interp
      "PDict [(u ''title'', PStr (u ''Report'')), (u ''pages'', PInt 3),
                (u ''tags'', PList [PNone, PBool True, PStr (u ''x'')])]"]
  show ?thesis by blast
qed

theorem deep_clean_tree_counterexample:
  "str_leaves (PDict [(u ''a'', nested 2000 PNone)]) [] = []
   \<and> check_metadata_risk example_interp (PDict [(u ''a'', nested 2000 PNone)])
       = Inl RecursionError
   \<and> check_metadata_risk example_interp (PDict [(u ''a'', nested 2000 PNone)]) \<noteq> Inr []"
  by (simp add: deep_eval u_def)

text \<open>
  C7, as amended. For a tree within the recursion limit and a string leaf that the
  traversal reaches, at path \<open>p\<close> with value \<open>s\<close>: the result of the metadata scanner
  holds the long-value indicator naming \<open>p\<close> and the length of \<open>s\<close> if and only if that
  length is greater than 5000. A string of 5001 characters under \<^verbatim>\<open>{"a": {"b": ...}}\<close>
  gives the indicator with \<^verbatim>\<open>a.b\<close> and \<^verbatim>\<open>5001\<close>; one of 5000 characters gives no
  long-value indicator, for any path or length. Beyond the limit the scan raises and
  nothing is reported, and a string inside a tuple is not looked at: both are in the
  theorem after the next.
\<close>

theorem long_value_indicator_iff:
  "(within_limit ip t \<and> (p, s) \<in> set (str_leaves t []) \<longrightarrow>
      (\<exists>out. check_metadata_risk ip t = Inr out
         \<and> (long_value_indicator p (length s) \<in> set out \<longleftrightarrow> 5000 < length s)))
   \<and> (within_limit ip (PDict [(u ''a'', PDict [(u ''b'', PStr s1)])]) \<and> length s1 = 5001 \<longrightarrow>
        (\<exists>out. check_metadata_risk ip (PDict [(u ''a'', PDict [(u ''b'', PStr s1)])]) = Inr out
           \<and> u ''Valor inusualmente largo en 'a.b' (5001 caracteres)'' \<in> set out))
   \<and> (within_limit ip (PDict [(u ''a'', PDict [(u ''b'', PStr s0)])]) \<and> length s0 = 5000 \<longrightarrow>
        (\<exists>out. check_metadata_risk ip (PDict [(u ''a'', PDict [(u ''b'', PStr s0)])]) = Inr out
           \<and> (\<forall>q n. long_value_indicator q n \<notin> set out)))"
proof -
  have l: "\<And>v. str_leaves (PDict [(u ''a'', PDict [(u ''b'', PStr v)])]) [] = [(u ''a.b'', v)]"
    by (simp add: u_def)
  have 1: "within_limit ip t \<and> (p, s) \<in> set (str_leaves t []) \<longrightarrow>
      (\<exists>out. check_metadata_risk ip t = Inr out
         \<and> (long_value_indicator p (length s) \<in> set out \<longleftrightarrow> 5000 < length s))"
    using long_mem_iff [of p s t] by (simp add: check_metadata_risk_eq)
  have 2: "within_limit ip (PDict [(u ''a'', PDict [(u ''b'', PStr s1)])]) \<and> length s1 = 5001 \<longrightarrow>
        (\<exists>out. check_metadata_risk ip (PDict [(u ''a'', PDict [(u ''b'', PStr s1)])]) = Inr out
           \<and> u ''Valor inusualmente largo en 'a.b' (5001 caracteres)'' \<in> set out)"
  proof (intro impI, elim conjE)
    assume w: "within_limit ip (PDict [(u ''a'', PDict [(u ''b'', PStr s1)])])"
      and n: "length s1 = 5001"
    have "u ''Valor inusualmente largo en 'a.b' (5001 caracteres)''
            = long_value_indicator (u ''a.b'') 5001"
      by (simp add: long_value_indicator_def dec.simps u_def)
    with n have "u ''Valor inusualmente largo en 'a.b' (5001 caracteres)''
          \<in> set (leaf_output (str_leaves (PDict [(u ''a'', PDict [(u ''b'', PStr s1)])]) []))"
      unfolding l by (simp add: leaf_output_simps mem_str_indicators)
    with w show "\<exists>out. check_metadata_risk ip (PDict [(u ''a'', PDict [(u ''b'', PStr s1)])]) = Inr out
           \<and> u ''Valor inusualmente largo en 'a.b' (5001 caracteres)'' \<in> set out"
      by (simp add: check_metadata_risk_eq)
  qed
  have 3: "within_limit ip (PDict [(u ''a'', PDict [(u ''b'', PStr s0)])]) \<and> length s0 = 5000 \<longrightarrow>
        (\<exists>out. check_metadata_risk ip (PDict [(u ''a'', PDict [(u ''b'', PStr s0)])]) = Inr out
           \<and> (\<forall>q n. long_value_indicator q n \<notin> set out))"
  proof (intro impI, elim conjE)
    assume w: "within_limit ip (PDict [(u ''a'', PDict [(u ''b'', PStr s0)])])"
      and n: "length s0 = 5000"
    from n have "\<forall>q n. long_value_indicator q n
          \<notin> set (leaf_output (str_leaves (PDict [(u ''a'', PDict [(u ''b'', PStr s0)])]) []))"
      unfolding l by (auto simp: leaf_output_simps mem_str_indicators long_neq_pattern)
    with w show "\<exists>out. check_metadata_risk ip (PDict [(u ''a'', PDict [(u ''b'', PStr s0)])]) = Inr out
           \<and> (\<forall>q n. long_value_indicator q n \<notin> set out)"
      by (simp add: check_metadata_risk_eq)
  qed
  from 1 2 3 show ?thesis by blast
qed

theorem long_value_indicator_iff_witness:
  "within_limit example_interp (PDict [(u ''a'', PDict [(u ''b'', PStr (replicate 5001 120))])])
   \<and> (u ''a.b'', replicate 5001 120)
      \<in> set (str_leaves (PDict [(u ''a'', PDict [(u ''b'', PStr (replicate 5001 120))])]) [])
   \<and> 5000 < length (replicate 5001 (120::nat))
   \<and> length (replicate 5001 (120::nat)) = 5001
   \<and> (\<exists>out. check_metadata_risk example_interp
               (PDict [(u ''a'', PDict [(u ''b'', PStr (replicate 5001 120))])]) = Inr out
         \<and> long_value_indicator (u ''a.b'') (length (replicate 5001 (120::nat))) \<in> set out
         \<and> u ''Valor inusualmente largo en 'a.b' (5001 caracteres)'' \<in> set out)
   \<and> within_limit example_interp (PDict [(u ''a'', PDict [(u ''b'', PStr (replicate 5000 120))])])
   \<and> length (replicate 5000 (120::nat)) = 5000
   \<and> (\<exists>out. check_metadata_risk example_interp
               (PDict [(u ''a'', PDict [(u ''b'', PStr (replicate 5000 120))])]) = Inr out
         \<and> long_value_indicator (u ''a.b'') 5000 \<notin> set out)"
proof -
  have w: "within_limit example_interp (PDict [(u ''a'', PDict [(u ''b'', PStr (replicate 5001 120))])])"
    "within_limit example_interp (PDict [(u ''a'', PDict [(u ''b'', PStr (replicate 5000 120))])])"
    by (simp_all add: within_limit_def example_interp_def)
  have h: "(u ''a.b'', replicate 5001 120)
      \<in> set (str_leaves (PDict [(u ''a'', PDict [(u ''b'', PStr (replicate 5001 120))])]) [])"
    by (simp add: u_def)
  have n: "5000 < length (replicate 5001 (120::nat))" "length (replicate 5001 (120::nat)) = 5001"
    "length (replicate 5000 (120::nat)) = 5000"
    by simp_all
  from w h n long_value_indicator_iff
    [of example_interp "PDict [(u ''a'', PDict [(u ''b'', PStr (replicate 5001 120))])]"
        "u ''a.b''" "replicate 5001 120" "replicate 5001 120" "replicate 5000 120"]
  show ?thesis by (metis sum.inject(2))
qed

theorem deep_long_value_counterexample:
  "str_leaves (PDict [(u ''a'', nested 2000 (PStr (replicate 5001 120)))]) []
     = [(nested_path 2000 (u ''a''), replicate 5001 120)]
   \<and> 5000 < length (replicate 5001 (120::nat))
   \<and> check_metadata_risk example_interp (PDict [(u ''a'', nested 2000 (PStr (replicate 5001 120)))])
       = Inl RecursionError
   \<and> check_metadata_risk example_interp (PDict [(u ''a'', PTuple [PStr (replicate 5001 120)])])
       = Inr []"
  by (simp add: deep_eval leaf_output_simps u_def)

text \<open>
  C8, as amended. For a tree within the recursion limit, a string leaf that the
  traversal reaches, at path \<open>p\<close> with value \<open>s\<close>, and an entry (pattern, description) of
  the table: if the pattern is found in \<open>s\<close> (case-insensitively) then the result holds
  the indicator made of that description and \<open>p\<close>. The tree
  \<^verbatim>\<open>{"comment": "<script>alert(1)</script>"}\<close> gives exactly the script-injection
  indicator at \<^verbatim>\<open>comment\<close>. Beyond the limit the scan raises and nothing is reported,
  and a string inside a tuple is not looked at: both are in the theorem after the next.
\<close>

theorem pattern_match_emits_indicator:
  "(within_limit ip t \<and> (p, s) \<in> set (str_leaves t [])
      \<and> (pat, desc) \<in> set SUSPICIOUS_METADATA_PATTERNS \<and> re_search pat s \<longrightarrow>
        (\<exists>out. check_metadata_risk ip t = Inr out \<and> pattern_indicator desc p \<in> set out))
   \<and> (within_limit ip (PDict [(u ''comment'', PStr (u ''<script>alert(1)</script>''))]) \<longrightarrow>
        check_metadata_risk ip (PDict [(u ''comment'', PStr (u ''<script>alert(1)</script>''))])
          = Inr [u (''Detectado 'Posible inyecci'' @ [CHR 0xF3] @ ''n de script HTML' en 'comment''
                    @ [CHR 0x27])])"
proof -
  have "\<exists>out. check_metadata_risk ip t = Inr out \<and> pattern_indicator desc p \<in> set out"
    if w: "within_limit ip t" and l: "(p, s) \<in> set (str_leaves t [])"
      and e: "(pat, desc) \<in> set SUSPICIOUS_METADATA_PATTERNS" and r: "re_search pat s"
  proof -
    from e r have "pattern_indicator desc p \<in> set (str_indicators s p)"
      unfolding mem_str_indicators by blast
    with l have "pattern_indicator desc p \<in> set (leaf_output (str_leaves t []))"
      unfolding mem_leaf_output by blast
    with w show ?thesis by (simp add: check_metadata_risk_eq)
  qed
  moreover have "leaf_output (str_leaves (PDict [(u ''comment'', PStr (u ''<script>alert(1)</script>''))]) [])
       = [u (''Detectado 'Posible inyecci'' @ [CHR 0xF3] @ ''n de script HTML' en 'comment''
             @ [CHR 0x27])]"
    by (simp add: leaf_output_simps str_indicators_def pattern_indicator_def eval_defs)
  then have "within_limit ip (PDict [(u ''comment'', PStr (u ''<script>alert(1)</script>''))]) \<longrightarrow>
        check_metadata_risk ip (PDict [(u ''comment'', PStr (u ''<script>alert(1)</script>''))])
          = Inr [u (''Detectado 'Posible inyecci'' @ [CHR 0xF3] @ ''n de script HTML' en 'comment''
                    @ [CHR 0x27])]"
    by (simp only: check_metadata_risk_eq) simp
  ultimately show ?thesis by blast
qed

theorem pattern_match_emits_indicator_witness:
  "within_limit example_interp (PDict [(u ''exif'', PList [PInt 1, PStr (u ''run PowerShell -enc'')])])
   \<and> (u ''exif[1]'', u ''run PowerShell -enc'')
      \<in> set (str_leaves (PDict [(u ''exif'', PList [PInt 1, PStr (u ''run PowerShell -enc'')])]) [])
   \<and> (lits ''powershell'', u ''Referencia a PowerShell'') \<in> set SUSPICIOUS_METADATA_PATTERNS
   \<and> re_search (lits ''powershell'') (u ''run PowerShell -enc'')
   \<and> (\<exists>out. check_metadata_risk example_interp
                (PDict [(u ''exif'', PList [PInt 1, PStr (u ''run PowerShell -enc'')])]) = Inr out
         \<and> pattern_indicator (u ''Referencia a PowerShell'') (u ''exif[1]'') \<in> set out)
   \<and> pattern_indicator (u ''Referencia a PowerShell'') (u ''exif[1]'')
      = u (''Detectado 'Referencia a PowerShell' en 'exif[1]'' @ [CHR 0x27])
   \<and> within_limit example_interp (PDict [(u ''comment'', PStr (u ''<script>alert(1)</script>''))])
   \<and> check_metadata_risk example_interp
        (PDict [(u ''comment'', PStr (u ''<script>alert(1)</script>''))])
      = Inr [u (''Detectado 'Posible inyecci'' @ [CHR 0xF3] @ ''n de script HTML' en 'comment''
                @ [CHR 0x27])]"
proof -
  have w: "within_limit example_interp
             (PDict [(u ''exif'', PList [PInt 1, PStr (u ''run PowerShell -enc'')])])"
    "within_limit example_interp (PDict [(u ''comment'', PStr (u ''<script>alert(1)</script>''))])"
    by (simp_all add: within_limit_def example_interp_def)
  have h: "(u ''exif[1]'', u ''run PowerShell -enc'')
      \<in> set (str_leaves (PDict [(u ''exif'', PList [PInt 1, PStr (u ''run PowerShell -enc'')])]) [])"
    by (simp add: u_def dec.simps)
  have t: "(lits ''powershell'', u ''Referencia a PowerShell'') \<in> set SUSPICIOUS_METADATA_PATTERNS"
    by (simp add: SUSPICIOUS_METADATA_PATTERNS_def)
  have r: "re_search (lits ''powershell'') (u ''run PowerShell -enc'')"
    by (simp add: eval_defs)
  have e: "pattern_indicator (u ''Referencia a PowerShell'') (u ''exif[1]'')
      = u (''Detectado 'Referencia a PowerShell' en 'exif[1]'' @ [CHR 0x27])"
    by (simp add: pattern_indicator_def u_def)
  from w h t r e pattern_match_emits_indicator
    [of example_interp "PDict [(u ''exif'', PList [PInt 1, PStr (u ''run PowerShell -enc'')])]"
        "u ''exif[1]''" "u ''run PowerShell -enc''"
        "lits ''powershell''" "u ''Referencia a PowerShell''"]
    pattern_match_emits_indicator [of example_interp]
  show ?thesis by blast
qed

theorem deep_pattern_counterexample:
  "str_leaves (PDict [(u ''comment'', nested 2000 (PStr (u ''<script>alert(1)</script>'')))]) []
     = [(nested_path 2000 (u ''comment''), u ''<script>alert(1)</script>'')]
   \<and> re_search (lits ''<script'' @ [DotStarLazy] @ lits ''>'') (u ''<script>alert(1)</script>'')
   \<and> check_metadata_risk example_interp
        (PDict [(u ''comment'', nested 2000 (PStr (u ''<script>alert(1)</script>'')))])
       = Inl RecursionError
   \<and> check_metadata_risk example_interp
        (PDict [(u ''comment'', PTuple [PStr (u ''<script>alert(1)</script>'')])])
       = Inr []"
proof -
  have "re_search (lits ''<script'' @ [DotStarLazy] @ lits ''>'') (u ''<script>alert(1)</script>'')"
    by (simp add: eval_defs)
  moreover have "u ''comment'' \<noteq> []" by (simp add: u_def)
  ultimately show ?thesis by (simp add: deep_eval leaf_output_simps)
qed

text \<open>
  C9. If the file is not a ZIP container, the Office scan returns the empty list and no
  error. If it is one and its entry names can be listed, the VBA indicator is in the
  result if and only if some entry name ends with \<^verbatim>\<open>vbaProject.bin\<close> (at most once), and
  for every \<open>n\<close> the OLE indicator with count \<open>n\<close> occurs once if \<open>n > 0\<close> is the number of
  entry names containing \<^verbatim>\<open>embeddings/oleObject\<close>, and not at all otherwise.
\<close>

theorem office_scan_indicators:
  "(is_zipfile w file_path = Inr False \<longrightarrow> scan_office_structure w file_path = Inr [])
   \<and> (is_zipfile w file_path = Inr True \<and> zip_namelist w file_path = Inr file_names \<longrightarrow>
        (\<exists>out. scan_office_structure w file_path = Inr out
           \<and> (u ''Contiene Macros VBA (vbaProject.bin)'' \<in> set out
                \<longleftrightarrow> (\<exists>name\<in>set file_names. suffix (u ''vbaProject.bin'') name))
           \<and> count_list out (u ''Contiene Macros VBA (vbaProject.bin)'') \<le> 1
           \<and> (\<forall>n. count_list out (u ''Contiene '' @ u (dec n) @ u '' objeto(s) OLE incrustado(s)'')
                  = (if 0 < n \<and> n = length (filter (sublist (u ''embeddings/oleObject'')) file_names)
                     then 1 else 0))))"
proof -
  have a: "is_zipfile w file_path = Inr False \<longrightarrow> scan_office_structure w file_path = Inr []"
    by (simp add: scan_office_structure_def)
  have b: "\<exists>out. scan_office_structure w file_path = Inr out
           \<and> (u ''Contiene Macros VBA (vbaProject.bin)'' \<in> set out
                \<longleftrightarrow> (\<exists>name\<in>set file_names. suffix (u ''vbaProject.bin'') name))
           \<and> count_list out (u ''Contiene Macros VBA (vbaProject.bin)'') \<le> 1
           \<and> (\<forall>n. count_list out (u ''Contiene '' @ u (dec n) @ u '' objeto(s) OLE incrustado(s)'')
                  = (if 0 < n \<and> n = length (filter (sublist (u ''embeddings/oleObject'')) file_names)
                     then 1 else 0))"
    if z: "is_zipfile w file_path = Inr True" and n: "zip_namelist w file_path = Inr file_names"
  proof -
    from z n have o: "scan_office_structure w file_path = Inr (scan_names file_names)"
      by (simp add: scan_office_structure_def)
    have v: "u ''Contiene Macros VBA (vbaProject.bin)'' = vba_indicator"
      by (simp add: vba_indicator_def)
    have l: "\<And>n. u ''Contiene '' @ u (dec n) @ u '' objeto(s) OLE incrustado(s)'' = ole_indicator n"
      by (simp add: ole_indicator_def)
    have 1: "vba_indicator \<in> set (scan_names file_names)
                \<longleftrightarrow> (\<exists>name\<in>set file_names. suffix (u ''vbaProject.bin'') name)"
      using vba_neq_ole by (auto simp: scan_names_def Let_def list_ex_iff)
    have 2: "count_list (scan_names file_names) vba_indicator \<le> 1"
      by (simp add: scan_names_def Let_def vba_neq_ole [THEN not_sym])
    have 3: "count_list (scan_names file_names) (ole_indicator n)
                  = (if 0 < n \<and> n = length (filter (sublist (u ''embeddings/oleObject'')) file_names)
                     then 1 else 0)" for n
    proof -
      have i: "\<And>a b. ole_indicator a = ole_indicator b \<longleftrightarrow> a = b"
        using ole_indicator_inj by blast
      have "filter (sublist (u ''embeddings/oleObject'')) file_names \<noteq> []
            \<longleftrightarrow> 0 < length (filter (sublist (u ''embeddings/oleObject'')) file_names)"
        by simp
      then show ?thesis
        by (auto simp: scan_names_def Let_def vba_neq_ole i)
    qed
    from o 1 2 3 show ?thesis unfolding v l by blast
  qed
  from a b show ?thesis by blast
qed

theorem office_scan_indicators_witness:
  "is_zipfile (single_file_world ''plain text, no archive'' remdups) (u ''old.doc'') = Inr False
   \<and> scan_office_structure (single_file_world ''plain text, no archive'' remdups) (u ''old.doc'') = Inr []
   \<and> is_zipfile (archive_world
         [u ''[Content_Types].xml'', u ''word/vbaProject.bin'',
          u ''word/embeddings/oleObject1.bin'', u ''word/embeddings/oleObject2.bin'',
          u ''word/embeddings/oleObject3.bin'']) (u ''report.docm'') = Inr True
   \<and> zip_namelist (archive_world
         [u ''[Content_Types].xml'', u ''word/vbaProject.bin'',
          u ''word/embeddings/oleObject1.bin'', u ''word/embeddings/oleObject2.bin'',
          u ''word/embeddings/oleObject3.bin'']) (u ''report.docm'')
       = Inr [u ''[Content_Types].xml'', u ''word/vbaProject.bin'',
          u ''word/embeddings/oleObject1.bin'', u ''word/embeddings/oleObject2.bin'',
          u ''word/embeddings/oleObject3.bin'']
   \<and> scan_office_structure (archive_world
         [u ''[Content_Types].xml'', u ''word/vbaProject.bin'',
          u ''word/embeddings/oleObject1.bin'', u ''word/embeddings/oleObject2.bin'',
          u ''word/embeddings/oleObject3.bin'']) (u ''report.docm'')
       = Inr [u ''Contiene Macros VBA (vbaProject.bin)'',
              u ''Contiene 3 objeto(s) OLE incrustado(s)'']"
proof -
  have e: "is_zipfile (single_file_world ''plain text, no archive'' remdups) (u ''old.doc'') = Inr False
   \<and> scan_office_structure (single_file_world ''plain text, no archive'' remdups) (u ''old.doc'') = Inr []
   \<and> is_zipfile (archive_world
         [u ''[Content_Types].xml'', u ''word/vbaProject.bin'',
          u ''word/embeddings/oleObject1.bin'', u ''word/embeddings/oleObject2.bin'',
          u ''word/embeddings/oleObject3.bin'']) (u ''report.docm'') = Inr True
   \<and> zip_namelist (archive_world
         [u ''[Content_Types].xml'', u ''word/vbaProject.bin'',
          u ''word/embeddings/oleObject1.bin'', u ''word/embeddings/oleObject2.bin'',
          u ''word/embeddings/oleObject3.bin'']) (u ''report.docm'')
       = Inr [u ''[Content_Types].xml'', u ''word/vbaProject.bin'',
          u ''word/embeddings/oleObject1.bin'', u ''word/embeddings/oleObject2.bin'',
          u ''word/embeddings/oleObject3.bin'']
   \<and> scan_office_structure (archive_world
         [u ''[Content_Types].xml'', u ''word/vbaProject.bin'',
          u ''word/embeddings/oleObject1.bin'', u ''word/embeddings/oleObject2.bin'',
          u ''word/embeddings/oleObject3.bin'']) (u ''report.docm'')
       = Inr [u ''Contiene Macros VBA (vbaProject.bin)'',
              u ''Contiene 3 objeto(s) OLE incrustado(s)'']"
    by (simp add: office_eval dec.simps)
  with office_scan_indicators [of "single_file_world ''plain text, no archive'' remdups" "u ''old.doc''"]
    office_scan_indicators [of "archive_world
         [u ''[Content_Types].xml'', u ''word/vbaProject.bin'',
          u ''word/embeddings/oleObject1.bin'', u ''word/embeddings/oleObject2.bin'',
          u ''word/embeddings/oleObject3.bin'']" "u ''report.docm''"
         "[u ''[Content_Types].xml'', u ''word/vbaProject.bin'',
          u ''word/embeddings/oleObject1.bin'', u ''word/embeddings/oleObject2.bin'',
          u ''word/embeddings/oleObject3.bin'']"]
  show ?thesis by blast
qed

text \<open>
  C10, as amended. Two runs on the same files, metadata tree and MIME type, in
  interpreters that may list a \<^verbatim>\<open>set\<close> in different orders, either both raise the same
  error or both return a report, and then the reports have the same \<open>is_suspicious\<close> and
  the same indicators with the same multiplicities; the metadata indicators, which come
  first, are the same in the same order; all is the same in the same order when the MIME
  type is not \<^verbatim>\<open>application/pdf\<close>, and when both interpreters list sets in the same
  order (as within one process). The order of the PDF findings is that of
  \<^verbatim>\<open>list(set(indicators))\<close>: the theorem after the next has two orders of the same set
  and two different reports for one input.
\<close>

theorem analysis_same_up_to_set_order:
  "set_semantics (list_of_set w1) \<and> set_semantics (list_of_set w2)
   \<and> open_rb w1 = open_rb w2 \<and> is_zipfile w1 = is_zipfile w2
   \<and> zip_namelist w1 = zip_namelist w2 \<longrightarrow>
     (case analyze_risk ip w1 file_path metadata mime_type of
        Inl e \<Rightarrow> analyze_risk ip w2 file_path metadata mime_type = Inl e
      | Inr r1 \<Rightarrow>
          (\<exists>r2 found. analyze_risk ip w2 file_path metadata mime_type = Inr r2
             \<and> check_metadata_risk ip metadata = Inr found
             \<and> is_suspicious r1 = is_suspicious r2
             \<and> mset (indicators r1) = mset (indicators r2)
             \<and> take (length found) (indicators r1) = found
             \<and> take (length found) (indicators r2) = found))
     \<and> (mime_type \<noteq> u ''application/pdf'' \<longrightarrow>
          analyze_risk ip w1 file_path metadata mime_type
            = analyze_risk ip w2 file_path metadata mime_type)
     \<and> (list_of_set w1 = list_of_set w2 \<longrightarrow>
          analyze_risk ip w1 file_path metadata mime_type
            = analyze_risk ip w2 file_path metadata mime_type)"
proof (intro impI, elim conjE)
  assume a: "set_semantics (list_of_set w1)" "set_semantics (list_of_set w2)"
    "open_rb w1 = open_rb w2" "is_zipfile w1 = is_zipfile w2" "zip_namelist w1 = zip_namelist w2"
  note m = check_file_risk_mset [OF a]
  have e: "check_file_risk w1 file_path mime_type = [] \<longleftrightarrow> check_file_risk w2 file_path mime_type = []"
    using m(1) [of file_path mime_type] by (metis mset_zero_iff)
  have 1: "case analyze_risk ip w1 file_path metadata mime_type of
        Inl e \<Rightarrow> analyze_risk ip w2 file_path metadata mime_type = Inl e
      | Inr r1 \<Rightarrow>
          (\<exists>r2 found. analyze_risk ip w2 file_path metadata mime_type = Inr r2
             \<and> check_metadata_risk ip metadata = Inr found
             \<and> is_suspicious r1 = is_suspicious r2
             \<and> mset (indicators r1) = mset (indicators r2)
             \<and> take (length found) (indicators r1) = found
             \<and> take (length found) (indicators r2) = found)"
    using e m(1) [of file_path mime_type]
    by (cases "check_metadata_risk ip metadata") (simp_all add: analyze_risk_def Let_def)
  have 4: "mime_type \<noteq> u ''application/pdf'' \<longrightarrow>
          analyze_risk ip w1 file_path metadata mime_type
            = analyze_risk ip w2 file_path metadata mime_type"
  proof
    assume "mime_type \<noteq> u ''application/pdf''"
    then have "check_file_risk w1 file_path mime_type = check_file_risk w2 file_path mime_type"
      by (rule m(2))
    then show "analyze_risk ip w1 file_path metadata mime_type
            = analyze_risk ip w2 file_path metadata mime_type"
      by (simp add: analyze_risk_def split: sum.splits)
  qed
  have 5: "list_of_set w1 = list_of_set w2 \<longrightarrow>
          analyze_risk ip w1 file_path metadata mime_type
            = analyze_risk ip w2 file_path metadata mime_type"
  proof
    assume "list_of_set w1 = list_of_set w2"
    with a have "w1 = w2" by simp
    then show "analyze_risk ip w1 file_path metadata mime_type
            = analyze_risk ip w2 file_path metadata mime_type" by simp
  qed
  from 1 4 5 show "(case analyze_risk ip w1 file_path metadata mime_type of
        Inl e \<Rightarrow> analyze_risk ip w2 file_path metadata mime_type = Inl e
      | Inr r1 \<Rightarrow>
          (\<exists>r2 found. analyze_risk ip w2 file_path metadata mime_type = Inr r2
             \<and> check_metadata_risk ip metadata = Inr found
             \<and> is_suspicious r1 = is_suspicious r2
             \<and> mset (indicators r1) = mset (indicators r2)
             \<and> take (length found) (indicators r1) = found
             \<and> take (length found) (indicators r2) = found))
     \<and> (mime_type \<noteq> u ''application/pdf'' \<longrightarrow>
          analyze_risk ip w1 file_path metadata mime_type
            = analyze_risk ip w2 file_path metadata mime_type)
     \<and> (list_of_set w1 = list_of_set w2 \<longrightarrow>
          analyze_risk ip w1 file_path metadata mime_type
            = analyze_risk ip w2 file_path metadata mime_type)"
    by blast
qed

theorem analysis_same_up_to_set_order_witness:
  "set_semantics (list_of_set (single_file_world ''%PDF /JS /Launch'' remdups))
   \<and> set_semantics (list_of_set (single_file_world ''%PDF /JS /Launch'' (rev \<circ> remdups)))
   \<and> open_rb (single_file_world ''%PDF /JS /Launch'' remdups)
       = open_rb (single_file_world ''%PDF /JS /Launch'' (rev \<circ> remdups))
   \<and> is_zipfile (single_file_world ''%PDF /JS /Launch'' remdups)
       = is_zipfile (single_file_world ''%PDF /JS /Launch'' (rev \<circ> remdups))
   \<and> zip_namelist (single_file_world ''%PDF /JS /Launch'' remdups)
       = zip_namelist (single_file_world ''%PDF /JS /Launch'' (rev \<circ> remdups))
   \<and> u ''text/plain'' \<noteq> u ''application/pdf''
   \<and> analyze_risk example_interp (single_file_world ''%PDF /JS /Launch'' remdups)
        (u ''a.pdf'') (PDict [(u ''Author'', PStr (u ''eval(x)''))]) (u ''application/pdf'')
      = Inr \<lparr>is_suspicious = True, indicators =
          [u (''Detectado 'Uso de eval() (ejecuci'' @ [CHR 0xF3] @ ''n de c'' @ [CHR 0xF3]
              @ ''digo din'' @ [CHR 0xE1] @ ''mico)' en 'Author'' @ [CHR 0x27]),
           u (''Estructura PDF sospechosa: Contiene c'' @ [CHR 0xF3] @ ''digo JavaScript (/JS)''),
           u ''Estructura PDF sospechosa: Intenta lanzar un programa externo (/Launch)'']\<rparr>
   \<and> analyze_risk example_interp (single_file_world ''%PDF /JS /Launch'' (rev \<circ> remdups))
        (u ''a.pdf'') (PDict [(u ''Author'', PStr (u ''eval(x)''))]) (u ''application/pdf'')
      = Inr \<lparr>is_suspicious = True, indicators =
          [u (''Detectado 'Uso de eval() (ejecuci'' @ [CHR 0xF3] @ ''n de c'' @ [CHR 0xF3]
              @ ''digo din'' @ [CHR 0xE1] @ ''mico)' en 'Author'' @ [CHR 0x27]),
           u ''Estructura PDF sospechosa: Intenta lanzar un programa externo (/Launch)'',
           u (''Estructura PDF sospechosa: Contiene c'' @ [CHR 0xF3] @ ''digo JavaScript (/JS)'')]\<rparr>
   \<and> analyze_risk example_interp (single_file_world ''%PDF /JS /Launch'' remdups)
        (u ''a.txt'') (PDict [(u ''Author'', PStr (u ''eval(x)''))]) (u ''text/plain'')
     = analyze_risk example_interp (single_file_world ''%PDF /JS /Launch'' (rev \<circ> remdups))
        (u ''a.txt'') (PDict [(u ''Author'', PStr (u ''eval(x)''))]) (u ''text/plain'')"
proof -
  have h: "set_semantics (list_of_set (single_file_world ''%PDF /JS /Launch'' remdups))
   \<and> set_semantics (list_of_set (single_file_world ''%PDF /JS /Launch'' (rev \<circ> remdups)))
   \<and> open_rb (single_file_world ''%PDF /JS /Launch'' remdups)
       = open_rb (single_file_world ''%PDF /JS /Launch'' (rev \<circ> remdups))
   \<and> is_zipfile (single_file_world ''%PDF /JS /Launch'' remdups)
       = is_zipfile (single_file_world ''%PDF /JS /Launch'' (rev \<circ> remdups))
   \<and> zip_namelist (single_file_world ''%PDF /JS /Launch'' remdups)
       = zip_namelist (single_file_world ''%PDF /JS /Launch'' (rev \<circ> remdups))"
    by (simp add: single_file_world_def set_semantics_def)
  have t: "u ''text/plain'' \<noteq> u ''application/pdf''" by (simp add: u_def)
  have m: "check_metadata_risk example_interp (PDict [(u ''Author'', PStr (u ''eval(x)''))])
      = Inr [u (''Detectado 'Uso de eval() (ejecuci'' @ [CHR 0xF3] @ ''n de c'' @ [CHR 0xF3]
              @ ''digo din'' @ [CHR 0xE1] @ ''mico)' en 'Author'' @ [CHR 0x27])]"
    by (simp add: check_metadata_risk_eq within_limit_def example_interp_def leaf_output_simps
        str_indicators_def pattern_indicator_def eval_defs)
  have a: "analyze_risk example_interp (single_file_world ''%PDF /JS /Launch'' remdups)
        (u ''a.pdf'') (PDict [(u ''Author'', PStr (u ''eval(x)''))]) (u ''application/pdf'')
      = Inr \<lparr>is_suspicious = True, indicators =
          [u (''Detectado 'Uso de eval() (ejecuci'' @ [CHR 0xF3] @ ''n de c'' @ [CHR 0xF3]
              @ ''digo din'' @ [CHR 0xE1] @ ''mico)' en 'Author'' @ [CHR 0x27]),
           u (''Estructura PDF sospechosa: Contiene c'' @ [CHR 0xF3] @ ''digo JavaScript (/JS)''),
           u ''Estructura PDF sospechosa: Intenta lanzar un programa externo (/Launch)'']\<rparr>"
    unfolding analyze_risk_def m by (simp add: check_file_risk_def pdf_eval)
  have b: "analyze_risk example_interp (single_file_world ''%PDF /JS /Launch'' (rev \<circ> remdups))
        (u ''a.pdf'') (PDict [(u ''Author'', PStr (u ''eval(x)''))]) (u ''application/pdf'')
      = Inr \<lparr>is_suspicious = True, indicators =
          [u (''Detectado 'Uso de eval() (ejecuci'' @ [CHR 0xF3] @ ''n de c'' @ [CHR 0xF3]
              @ ''digo din'' @ [CHR 0xE1] @ ''mico)' en 'Author'' @ [CHR 0x27]),
           u ''Estructura PDF sospechosa: Intenta lanzar un programa externo (/Launch)'',
           u (''Estructura PDF sospechosa: Contiene c'' @ [CHR 0xF3] @ ''digo JavaScript (/JS)'')]\<rparr>"
    unfolding analyze_risk_def m by (simp add: check_file_risk_def pdf_eval)
  from h t a b
    analysis_same_up_to_set_order [of "single_file_world ''%PDF /JS /Launch'' remdups"
      "single_file_world ''%PDF /JS /Launch'' (rev \<circ> remdups)" example_interp "u ''a.pdf''"
      "PDict [(u ''Author'', PStr (u ''eval(x)''))]" "u ''application/pdf''"]
    analysis_same_up_to_set_order [of "single_file_world ''%PDF /JS /Launch'' remdups"
      "single_file_world ''%PDF /JS /Launch'' (rev \<circ> remdups)" example_interp "u ''a.txt''"
      "PDict [(u ''Author'', PStr (u ''eval(x)''))]" "u ''text/plain''"]
  show ?thesis by blast
qed

theorem set_order_counterexample:
  "set_semantics remdups \<and> set_semantics (rev \<circ> remdups)
   \<and> analyze_risk example_interp (single_file_world ''%PDF /JS /Launch'' remdups)
        (u ''a.pdf'') (PDict []) (u ''application/pdf'')
     = Inr \<lparr>is_suspicious = True, indicators =
         [u (''Estructura PDF sospechosa: Contiene c'' @ [CHR 0xF3] @ ''digo JavaScript (/JS)''),
          u ''Estructura PDF sospechosa: Intenta lanzar un programa externo (/Launch)'']\<rparr>
   \<and> analyze_risk example_interp (single_file_world ''%PDF /JS /Launch'' (rev \<circ> remdups))
        (u ''a.pdf'') (PDict []) (u ''application/pdf'')
     = Inr \<lparr>is_suspicious = True, indicators =
         [u ''Estructura PDF sospechosa: Intenta lanzar un programa externo (/Launch)'',
          u (''Estructura PDF sospechosa: Contiene c'' @ [CHR 0xF3] @ ''digo JavaScript (/JS)'')]\<rparr>
   \<and> analyze_risk example_interp (single_file_world ''%PDF /JS /Launch'' remdups)
        (u ''a.pdf'') (PDict []) (u ''application/pdf'')
     \<noteq> analyze_risk example_interp (single_file_world ''%PDF /JS /Launch'' (rev \<circ> remdups))
        (u ''a.pdf'') (PDict []) (u ''application/pdf'')"
  by (simp add: risk_eval pdf_eval set_semantics_def)

end
